theory Spec2Isabelle
  imports Main "HOL-Library.Word"
begin

unbundle bit_operations_syntax

section \<open>Data model (include/dht.h)\<close>

text \<open>
  The status codes of \<^verbatim>\<open>enum DhtStatus\<close>. The C enum gives each code a one-hot integer
  value; \<open>DhtStatus_value\<close> is that value, needed where the source stores a status
  constant into an integer field.
\<close>

datatype DhtStatus =
    DHT_OK
  | DHT_NO_DATA
  | DHT_BUSY
  | DHT_DATA_READY
  | DHT_ERR_TIMEOUT
  | DHT_ERR_SEQUENCE_INVALID
  | DHT_ERR_CRC

primrec DhtStatus_value :: "DhtStatus \<Rightarrow> int" where
  "DhtStatus_value DHT_OK = 0"
| "DhtStatus_value DHT_NO_DATA = 1"
| "DhtStatus_value DHT_BUSY = 2"
| "DhtStatus_value DHT_DATA_READY = 4"
| "DhtStatus_value DHT_ERR_TIMEOUT = 8"
| "DhtStatus_value DHT_ERR_SEQUENCE_INVALID = 16"
| "DhtStatus_value DHT_ERR_CRC = 32"

datatype DhtDataLevel = DHT_DATA_LOW | DHT_DATA_HIGH

text \<open>
  \<^verbatim>\<open>struct DhtEdge\<close>: \<^verbatim>\<open>unsigned timestamp\<close> is a 32-bit unsigned integer (the width of
  \<^verbatim>\<open>unsigned\<close> on the ESP32 target of the example platform); subtraction wraps.
\<close>

record DhtEdge =
  timestamp :: "32 word"
  level :: DhtDataLevel

text \<open>
  \<^verbatim>\<open>struct Dht\<close>: the array \<^verbatim>\<open>edges[DHT_EDGES_NUMBER]\<close> is a map from slot index to edge;
  only the slots \<open>0 .. 83\<close> exist, and every read goes through \<open>edge_at\<close>, which
  reports an index outside the array instead of returning a value. \<^verbatim>\<open>int current_edge\<close>
  is an \<open>int\<close>: the source only compares it, assigns constants to it and increments it
  below 84, so no operation on it can overflow.
\<close>

record Dht =
  edges :: "nat \<Rightarrow> DhtEdge"
  current_edge :: int

text \<open>\<^verbatim>\<open>struct DhtData\<close> with its two anonymous \<^verbatim>\<open>{integral, decimal}\<close> members.\<close>

record DhtReading =
  integral :: "8 word"
  decimal :: "8 word"

record DhtData =
  humidity :: DhtReading
  temperature :: DhtReading
  crc :: "8 word"

subsection \<open>Constants\<close>

definition DHT_EDGES_NUMBER :: int where
  "DHT_EDGES_NUMBER = 84"

definition DHT_NO_DATA_AVAILABLE :: int where
  "DHT_NO_DATA_AVAILABLE = - 1"

definition DHT_ACK_TIMEOUT_US :: "32 word" where
  "DHT_ACK_TIMEOUT_US = 60"

definition DHT_NEW_EDGE_TIMEOUT_US :: "32 word" where
  "DHT_NEW_EDGE_TIMEOUT_US = 100"

definition DHT_DATA_BIT_0_DURATION_US_MAX :: "32 word" where
  "DHT_DATA_BIT_0_DURATION_US_MAX = 35"

definition DHT_DATA_BIT_1_DURATION_US_MAX :: "32 word" where
  "DHT_DATA_BIT_1_DURATION_US_MAX = 80"

definition DHT_DATA_EDGES_PER_BYTE :: nat where
  "DHT_DATA_EDGES_PER_BYTE = 16"

definition DHT_MOST_SIGNIFICANT_BIT_OFFSET :: int where
  "DHT_MOST_SIGNIFICANT_BIT_OFFSET = 7"

definition DHT_INTEGRAL_RH_EDGES_INDEX :: int where
  "DHT_INTEGRAL_RH_EDGES_INDEX = 2"

definition DHT_DECIMAL_RH_EDGES_INDEX :: int where
  "DHT_DECIMAL_RH_EDGES_INDEX = 18"

definition DHT_INTEGRAL_T_EDGES_INDEX :: int where
  "DHT_INTEGRAL_T_EDGES_INDEX = 34"

definition DHT_DECIMAL_T_EDGES_INDEX :: int where
  "DHT_DECIMAL_T_EDGES_INDEX = 50"

definition DHT_CHECKSUM_EDGES_INDEX :: int where
  "DHT_CHECKSUM_EDGES_INDEX = 66"

subsection \<open>Array access\<close>

text \<open>
  A read of \<^verbatim>\<open>edges[i]\<close>. C leaves an index outside \<open>0 .. 83\<close> undefined; the model
  makes it a fault value that every caller propagates.
\<close>

datatype fault = EdgeIndexOutOfBounds int

definition edge_at :: "(nat \<Rightarrow> DhtEdge) \<Rightarrow> int \<Rightarrow> fault + DhtEdge" where
  "edge_at es i =
     (if 0 \<le> i \<and> i < DHT_EDGES_NUMBER then Inr (es (nat i))
      else Inl (EdgeIndexOutOfBounds i))"

section \<open>Operations (the sensor component)\<close>

text \<open>
  The platform interface (\<^verbatim>\<open>dht_get_microseconds\<close>, \<^verbatim>\<open>dht_get_data_line_level\<close>) is
  the environment: a function that reads the clock or the line takes the value read as
  an argument. The line configuration, the interrupt switch and the sleep do not touch
  \<^verbatim>\<open>struct Dht\<close> and leave no trace in the model.
\<close>

definition dht_init :: "Dht \<Rightarrow> Dht" where
  "dht_init self = self\<lparr>current_edge := DHT_NO_DATA_AVAILABLE\<rparr>"

text \<open>
  \<^verbatim>\<open>self->current_edge = DHT_NO_DATA;\<close> assigns the status constant, whose integer value
  is 1, not the marker \<^verbatim>\<open>DHT_NO_DATA_AVAILABLE\<close>.
\<close>

definition dht_abort_read :: "Dht \<Rightarrow> Dht" where
  "dht_abort_read self = self\<lparr>current_edge := DhtStatus_value DHT_NO_DATA\<rparr>"

definition dht_check_status :: "32 word \<Rightarrow> Dht \<Rightarrow> fault + DhtStatus" where
  "dht_check_status now self =
     (if current_edge self = DHT_NO_DATA_AVAILABLE then Inr DHT_NO_DATA
      else if current_edge self < DHT_EDGES_NUMBER then
        (case edge_at (edges self) (current_edge self - 1) of
           Inl f \<Rightarrow> Inl f
         | Inr e \<Rightarrow>
             (let last_edge_timestamp = timestamp e;
                  microseconds_elapsed = now - last_edge_timestamp
              in if microseconds_elapsed > DHT_NEW_EDGE_TIMEOUT_US
                 then Inr DHT_ERR_TIMEOUT
                 else Inr DHT_BUSY))
      else Inr DHT_DATA_READY)"

text \<open>
  The edge handler, run once per transition of the data line: \<open>lv\<close> is the level read
  from the line and \<open>now\<close> the clock value read when the sample is stored. The result is
  the new state and whether \<^verbatim>\<open>dht_notify_sequence_completed\<close> was called.
\<close>

definition dht_handle_data_line_edge ::
    "DhtDataLevel \<Rightarrow> 32 word \<Rightarrow> Dht \<Rightarrow> Dht \<times> bool" where
  "dht_handle_data_line_edge lv now self =
     (if (current_edge self = 0 \<and> lv = DHT_DATA_LOW) \<or>
         (current_edge self > 0 \<and> current_edge self < DHT_EDGES_NUMBER)
      then
        (let self' = self\<lparr>edges := (edges self)
                            (nat (current_edge self) := \<lparr>timestamp = now, level = lv\<rparr>),
                          current_edge := current_edge self + 1\<rparr>
         in (self', current_edge self' = DHT_EDGES_NUMBER))
      else (self, False))"

text \<open>
  The value is the \<^verbatim>\<open>int\<close> of the conditional expression converted to the
  \<^verbatim>\<open>unsigned\<close> return type.
\<close>

definition dht_get_edges_count :: "Dht \<Rightarrow> 32 word" where
  "dht_get_edges_count self =
     (if current_edge self > 0 then word_of_int (current_edge self) else 0)"

text \<open>
  The \<^verbatim>\<open>switch\<close> of \<^verbatim>\<open>dht_status_to_str\<close> on the integer value of the status, with
  its \<^verbatim>\<open>default\<close> branch.
\<close>

definition dht_status_name :: "int \<Rightarrow> string" where
  "dht_status_name v =
     (if v = DhtStatus_value DHT_OK then ''DHT_OK''
      else if v = DhtStatus_value DHT_NO_DATA then ''DHT_NO_DATA''
      else if v = DhtStatus_value DHT_BUSY then ''DHT_NO_DATA''
      else if v = DhtStatus_value DHT_DATA_READY then ''DHT_DATA_READY''
      else if v = DhtStatus_value DHT_ERR_TIMEOUT then ''DHT_ERR_TIMEOUT''
      else if v = DhtStatus_value DHT_ERR_SEQUENCE_INVALID then ''DHT_ERR_SEQUENCE_INVALID''
      else if v = DhtStatus_value DHT_ERR_CRC then ''DHT_ERR_CRC''
      else ''DHT_STATUS_UNKNOWN'')"

definition dht_status_to_str :: "DhtStatus \<Rightarrow> string" where
  "dht_status_to_str status = dht_status_name (DhtStatus_value status)"

subsection \<open>Frame decoder\<close>

text \<open>
  The loop of \<^verbatim>\<open>dht_decode_byte\<close>. \<open>base\<close> is the offset of the pointer
  \<^verbatim>\<open>self->edges + INDEX\<close> into the array, \<open>i\<close> the loop counter, \<open>bit_offset\<close> the shift
  of the next bit. The \<^verbatim>\<open>||\<close> of the level test is short-circuit: the second edge is
  read only when the first one is low.
\<close>

function dht_decode_byte_loop ::
    "(nat \<Rightarrow> DhtEdge) \<Rightarrow> int \<Rightarrow> nat \<Rightarrow> int \<Rightarrow> 8 word \<Rightarrow> fault + (DhtStatus \<times> 8 word)" where
  "dht_decode_byte_loop es base i bit_offset data_byte =
     (if i < DHT_DATA_EDGES_PER_BYTE then
        (case edge_at es (base + int i) of
           Inl f \<Rightarrow> Inl f
         | Inr e0 \<Rightarrow>
             if level e0 \<noteq> DHT_DATA_LOW then Inr (DHT_ERR_SEQUENCE_INVALID, data_byte)
             else
               (case edge_at es (base + int i + 1) of
                  Inl f \<Rightarrow> Inl f
                | Inr e1 \<Rightarrow>
                    if level e1 \<noteq> DHT_DATA_HIGH then Inr (DHT_ERR_SEQUENCE_INVALID, data_byte)
                    else
                      (case edge_at es (base + int i + 2) of
                         Inl f \<Rightarrow> Inl f
                       | Inr e2 \<Rightarrow>
                           (let data_bit_duration_us = timestamp e2 - timestamp e1
                            in if data_bit_duration_us > DHT_DATA_BIT_1_DURATION_US_MAX
                               then Inr (DHT_ERR_TIMEOUT, data_byte)
                               else
                                 (let bit = (if data_bit_duration_us > DHT_DATA_BIT_0_DURATION_US_MAX
                                             then 1 else 0)
                                  in dht_decode_byte_loop es base (i + 2) (bit_offset - 1)
                                       (data_byte OR push_bit (nat bit_offset) bit))))))
      else Inr (DHT_OK, data_byte))"
  by pat_completeness auto

termination
  by (relation "measure (\<lambda>(es, base, i, bit_offset, data_byte). DHT_DATA_EDGES_PER_BYTE - i)")
     auto

declare dht_decode_byte_loop.simps [simp del]

definition dht_decode_byte :: "(nat \<Rightarrow> DhtEdge) \<Rightarrow> int \<Rightarrow> fault + (DhtStatus \<times> 8 word)" where
  "dht_decode_byte es base =
     dht_decode_byte_loop es base 0 DHT_MOST_SIGNIFICANT_BIT_OFFSET 0"

text \<open>
  The four bytes are promoted to \<^verbatim>\<open>int\<close>, added, masked with \<^verbatim>\<open>0xFF\<close> and returned as
  \<^verbatim>\<open>unsigned\<close>.
\<close>

definition dht_calculate_data_crc :: "DhtData \<Rightarrow> 32 word" where
  "dht_calculate_data_crc data =
     (ucast (integral (humidity data)) + ucast (decimal (humidity data)) +
      ucast (integral (temperature data)) + ucast (decimal (temperature data)))
     AND 0xFF"

text \<open>
  \<^verbatim>\<open>dht_get_data\<close> returns the status and the contents of \<^verbatim>\<open>*data\<close> on return: every
  byte decode writes its output byte, also when it fails.
\<close>

definition dht_get_data :: "32 word \<Rightarrow> Dht \<Rightarrow> DhtData \<Rightarrow> fault + (DhtStatus \<times> DhtData)" where
  "dht_get_data now self data =
     (case dht_check_status now self of
        Inl f \<Rightarrow> Inl f
      | Inr status \<Rightarrow>
          if status \<noteq> DHT_DATA_READY then Inr (status, data)
          else
            (case dht_decode_byte (edges self) DHT_INTEGRAL_RH_EDGES_INDEX of
               Inl f \<Rightarrow> Inl f
             | Inr (status, b) \<Rightarrow>
                 (let data = data\<lparr>humidity := (humidity data)\<lparr>integral := b\<rparr>\<rparr>
                  in if status \<noteq> DHT_OK then Inr (status, data)
                     else
                       (let data = data\<lparr>humidity := (humidity data)\<lparr>decimal := 0\<rparr>\<rparr>
                        in case dht_decode_byte (edges self) DHT_INTEGRAL_T_EDGES_INDEX of
                             Inl f \<Rightarrow> Inl f
                           | Inr (status, b) \<Rightarrow>
                               (let data = data\<lparr>temperature := (temperature data)\<lparr>integral := b\<rparr>\<rparr>
                                in if status \<noteq> DHT_OK then Inr (status, data)
                                   else
                                     (let data = data\<lparr>temperature :=
                                                       (temperature data)\<lparr>decimal := 0\<rparr>\<rparr>
                                      in case dht_decode_byte (edges self) DHT_CHECKSUM_EDGES_INDEX of
                                           Inl f \<Rightarrow> Inl f
                                         | Inr (status, b) \<Rightarrow>
                                             (let data = data\<lparr>crc := b\<rparr>
                                              in if dht_calculate_data_crc data \<noteq> ucast (crc data)
                                                 then Inr (DHT_ERR_CRC, data)
                                                 else Inr (DHT_OK, data))))))))"

section \<open>Sequence controller\<close>

text \<open>
  The edge handler runs from an interrupt while \<^verbatim>\<open>dht_start_read\<close> sleeps or spins.
  One run of the handler is atomic for the foreground, so the environment of
  \<^verbatim>\<open>dht_start_read\<close> is a script: the handler runs (each with the level and the clock
  value it reads) that fall into each window of the foreground code, and the clock values
  the foreground reads.
\<close>

type_synonym edge_event = "DhtDataLevel \<times> 32 word"

fun handle_edges :: "edge_event list \<Rightarrow> Dht \<Rightarrow> Dht" where
  "handle_edges [] self = self"
| "handle_edges ((lv, now) # evs) self =
     handle_edges evs (fst (dht_handle_data_line_edge lv now self))"

text \<open>
  One iteration of the loop of \<^verbatim>\<open>dht_wait_for_ack\<close>: the clock value the iteration
  reads, and the handler runs between its test of \<^verbatim>\<open>current_edge\<close> and the next one.
\<close>

record AckPoll =
  poll_irqs :: "edge_event list"
  poll_clock :: "32 word"

text \<open>
  \<^verbatim>\<open>while (self->current_edge == 0)\<close>. The loop ends only when an edge is recorded or the
  clock passes the timeout; with a clock that stands still it spins forever. The script
  of iterations is finite, and \<open>None\<close> says that the loop was still spinning when the
  script ended.
\<close>

fun dht_wait_for_ack :: "32 word \<Rightarrow> AckPoll list \<Rightarrow> Dht \<Rightarrow> (DhtStatus \<times> Dht) option" where
  "dht_wait_for_ack start_time [] self =
     (if current_edge self = 0 then None else Some (DHT_OK, self))"
| "dht_wait_for_ack start_time (p # ps) self =
     (if current_edge self = 0 then
        (let self' = handle_edges (poll_irqs p) self;
             microseconds_elapsed = poll_clock p - start_time
         in if microseconds_elapsed > DHT_ACK_TIMEOUT_US
            then Some (DHT_ERR_TIMEOUT, self')
            else dht_wait_for_ack start_time ps self')
      else Some (DHT_OK, self))"

text \<open>
  The script of one \<^verbatim>\<open>dht_start_read\<close>: the handler runs while the start signal is
  driven (interrupts are enabled before the line is pulled low), the handler runs
  between the reset of \<^verbatim>\<open>current_edge\<close> and the first test of the wait loop, the clock
  value \<^verbatim>\<open>start_time\<close>, and the iterations of the wait loop.
\<close>

record StartReadEnv =
  start_signal_irqs :: "edge_event list"
  ack_irqs :: "edge_event list"
  ack_start_time :: "32 word"
  ack_polls :: "AckPoll list"

definition dht_start_read :: "StartReadEnv \<Rightarrow> Dht \<Rightarrow> (DhtStatus \<times> Dht) option" where
  "dht_start_read env self =
     (let self = dht_abort_read self;
          self = handle_edges (start_signal_irqs env) self;
          self = self\<lparr>current_edge := 0\<rparr>;
          self = handle_edges (ack_irqs env) self
      in case dht_wait_for_ack (ack_start_time env) (ack_polls env) self of
           None \<Rightarrow> None
         | Some (status, self) \<Rightarrow>
             if status = DHT_ERR_TIMEOUT then Some (DHT_ERR_TIMEOUT, dht_abort_read self)
             else Some (DHT_OK, self))"

subsection \<open>The public operations as calls on a device\<close>

text \<open>
  One call of the public interface and the device state it leaves. \<^verbatim>\<open>dht_check_status\<close>
  and \<^verbatim>\<open>dht_get_data\<close> never write to \<^verbatim>\<open>*self\<close>; a call has no successor state
  (\<open>None\<close>) when it reads outside the array or when the wait of \<^verbatim>\<open>dht_start_read\<close>
  does not end within the script.
\<close>

datatype DhtCall =
    CallInit
  | CallStartRead StartReadEnv
  | CallAbortRead
  | CallHandleEdge DhtDataLevel "32 word"
  | CallCheckStatus "32 word"
  | CallGetData "32 word" DhtData

fun dht_call :: "DhtCall \<Rightarrow> Dht \<Rightarrow> Dht option" where
  "dht_call CallInit self = Some (dht_init self)"
| "dht_call (CallStartRead env) self = map_option snd (dht_start_read env self)"
| "dht_call CallAbortRead self = Some (dht_abort_read self)"
| "dht_call (CallHandleEdge lv now) self = Some (fst (dht_handle_data_line_edge lv now self))"
| "dht_call (CallCheckStatus now) self =
     (case dht_check_status now self of Inl f \<Rightarrow> None | Inr status \<Rightarrow> Some self)"
| "dht_call (CallGetData now data) self =
     (case dht_get_data now self data of Inl f \<Rightarrow> None | Inr r \<Rightarrow> Some self)"

fun resets_cursor :: "DhtCall \<Rightarrow> bool" where
  "resets_cursor CallInit = True"
| "resets_cursor (CallStartRead env) = True"
| "resets_cursor CallAbortRead = True"
| "resets_cursor c = False"

text \<open>The device states a program can reach: it initialises the device, then calls.\<close>

inductive reachable :: "Dht \<Rightarrow> bool" where
  reachable_init: "reachable (dht_init self)"
| reachable_call: "reachable self \<Longrightarrow> dht_call c self = Some self' \<Longrightarrow> reachable self'"

text \<open>
  A run of the edge handler over a list of transitions, counting the calls of
  \<^verbatim>\<open>dht_notify_sequence_completed\<close>.
\<close>

fun run_edges :: "edge_event list \<Rightarrow> Dht \<Rightarrow> Dht \<times> nat" where
  "run_edges [] self = (self, 0)"
| "run_edges ((lv, now) # evs) self =
     (let (self', notified) = dht_handle_data_line_edge lv now self;
          (self'', n) = run_edges evs self'
      in (self'', (if notified then 1 else 0) + n))"

section \<open>The wire format, in the words of the protocol\<close>

text \<open>
  Data bit \<open>k\<close> of the byte whose window starts at edge \<open>base\<close> is the triplet of edges
  \<open>base + 2k\<close>, \<open>base + 2k + 1\<close>, \<open>base + 2k + 2\<close>: the line goes low, goes high, and the
  next transition ends the high pulse.
\<close>

definition low_edge :: "(nat \<Rightarrow> DhtEdge) \<Rightarrow> nat \<Rightarrow> nat \<Rightarrow> DhtEdge" where
  "low_edge es base k = es (base + 2 * k)"

definition high_edge :: "(nat \<Rightarrow> DhtEdge) \<Rightarrow> nat \<Rightarrow> nat \<Rightarrow> DhtEdge" where
  "high_edge es base k = es (base + 2 * k + 1)"

definition pulse_us :: "(nat \<Rightarrow> DhtEdge) \<Rightarrow> nat \<Rightarrow> nat \<Rightarrow> 32 word" where
  "pulse_us es base k = timestamp (es (base + 2 * k + 2)) - timestamp (es (base + 2 * k + 1))"

definition levels_ok :: "(nat \<Rightarrow> DhtEdge) \<Rightarrow> nat \<Rightarrow> nat \<Rightarrow> bool" where
  "levels_ok es base k \<longleftrightarrow>
     level (low_edge es base k) = DHT_DATA_LOW \<and> level (high_edge es base k) = DHT_DATA_HIGH"

definition bit_ok :: "(nat \<Rightarrow> DhtEdge) \<Rightarrow> nat \<Rightarrow> nat \<Rightarrow> bool" where
  "bit_ok es base k \<longleftrightarrow> levels_ok es base k \<and> pulse_us es base k \<le> 80"

definition bit_is_one :: "(nat \<Rightarrow> DhtEdge) \<Rightarrow> nat \<Rightarrow> nat \<Rightarrow> bool" where
  "bit_is_one es base k \<longleftrightarrow> 35 < pulse_us es base k"

text \<open>The value of a bit string sent most significant bit first.\<close>

definition msb_first :: "bool list \<Rightarrow> 8 word" where
  "msb_first bs = foldl (\<lambda>acc b. 2 * acc + (if b then 1 else 0)) 0 bs"

definition window_byte :: "(nat \<Rightarrow> DhtEdge) \<Rightarrow> nat \<Rightarrow> 8 word" where
  "window_byte es base = msb_first (map (bit_is_one es base) [0..<8])"

text \<open>
  The first \<open>k\<close> bits of a window, placed from bit 7 downwards: the contents of the
  output byte when the decoder has stored \<open>k\<close> bits.
\<close>

definition partial_byte :: "(nat \<Rightarrow> DhtEdge) \<Rightarrow> nat \<Rightarrow> nat \<Rightarrow> 8 word" where
  "partial_byte es base k = push_bit (8 - k) (msb_first (map (bit_is_one es base) [0..<k]))"

text \<open>
  A timeline follows the pattern when each of the 40 data bits, counted from edge 2, is
  a low edge, then a high edge, with a high pulse of at most 80 microseconds.
\<close>

definition follows_pattern :: "(nat \<Rightarrow> DhtEdge) \<Rightarrow> bool" where
  "follows_pattern es \<longleftrightarrow> list_all (bit_ok es 2) [0..<40]"

subsection \<open>Captured frames for the scenarios\<close>

text \<open>
  The edges a sensor produces for a list of high-pulse widths: the acknowledge (low for
  80, high for 80 microseconds), per bit a low phase of 50 microseconds and the high
  pulse, and the closing low phase of 50 microseconds. A bit 0 is a pulse of 27
  microseconds, a bit 1 one of 70.
\<close>

fun data_edges :: "32 word \<Rightarrow> 32 word list \<Rightarrow> DhtEdge list" where
  "data_edges t [] =
     [\<lparr>timestamp = t, level = DHT_DATA_LOW\<rparr>, \<lparr>timestamp = t + 50, level = DHT_DATA_HIGH\<rparr>]"
| "data_edges t (w # ws) =
     \<lparr>timestamp = t, level = DHT_DATA_LOW\<rparr> #
     \<lparr>timestamp = t + 50, level = DHT_DATA_HIGH\<rparr> #
     data_edges (t + 50 + w) ws"

definition frame_edges :: "32 word \<Rightarrow> 32 word list \<Rightarrow> DhtEdge list" where
  "frame_edges t0 widths =
     \<lparr>timestamp = t0, level = DHT_DATA_LOW\<rparr> #
     \<lparr>timestamp = t0 + 80, level = DHT_DATA_HIGH\<rparr> #
     data_edges (t0 + 160) widths"

definition bit_width :: "bool \<Rightarrow> 32 word" where
  "bit_width b = (if b then 70 else 27)"

definition byte_bits :: "8 word \<Rightarrow> bool list" where
  "byte_bits w = map (\<lambda>k. bit w (7 - k)) [0..<8]"

definition byte_widths :: "8 word list \<Rightarrow> 32 word list" where
  "byte_widths bytes = map bit_width (concat (map byte_bits bytes))"

text \<open>The same edges with the level of edge \<open>i\<close> replaced.\<close>

definition with_level :: "nat \<Rightarrow> DhtDataLevel \<Rightarrow> DhtEdge list \<Rightarrow> DhtEdge list" where
  "with_level i lv xs = xs[i := (xs ! i)\<lparr>level := lv\<rparr>]"

text \<open>A device whose timeline holds the edges \<open>xs\<close>, all of them recorded.\<close>

definition captured :: "DhtEdge list \<Rightarrow> Dht" where
  "captured xs =
     \<lparr>edges = (\<lambda>i. if i < length xs then xs ! i
                    else \<lparr>timestamp = 0, level = DHT_DATA_HIGH\<rparr>),
      current_edge = int (length xs)\<rparr>"

definition sensor_frame :: "32 word \<Rightarrow> 8 word list \<Rightarrow> Dht" where
  "sensor_frame t0 bytes = captured (frame_edges t0 (byte_widths bytes))"

text \<open>The transitions of a list of edges, as the edge handler sees them.\<close>

definition edge_events :: "DhtEdge list \<Rightarrow> edge_event list" where
  "edge_events xs = map (\<lambda>e. (level e, timestamp e)) xs"

definition blank_data :: DhtData where
  "blank_data =
     \<lparr>humidity = \<lparr>integral = 0, decimal = 0\<rparr>,
      temperature = \<lparr>integral = 0, decimal = 0\<rparr>,
      crc = 0\<rparr>"

definition blank_device :: Dht where
  "blank_device =
     \<lparr>edges = (\<lambda>i. \<lparr>timestamp = 0, level = DHT_DATA_HIGH\<rparr>), current_edge = 0\<rparr>"

section \<open>The byte decoder, bit by bit\<close>

lemma edge_at_in_range:
  "i < 84 \<Longrightarrow> edge_at es (int i) = Inr (es i)"
  by (simp add: edge_at_def DHT_EDGES_NUMBER_def)

text \<open>One iteration of the loop on data bit \<open>k\<close> of an in-bounds window.\<close>

lemma decode_step:
  assumes "k < 8" "b + 16 < 84"
  shows "dht_decode_byte_loop es (int b) (2 * k) (7 - int k) acc =
     (if level (low_edge es b k) \<noteq> DHT_DATA_LOW then Inr (DHT_ERR_SEQUENCE_INVALID, acc)
      else if level (high_edge es b k) \<noteq> DHT_DATA_HIGH then Inr (DHT_ERR_SEQUENCE_INVALID, acc)
      else if pulse_us es b k > 80 then Inr (DHT_ERR_TIMEOUT, acc)
      else dht_decode_byte_loop es (int b) (2 * Suc k) (7 - int (Suc k))
             (acc OR push_bit (7 - k) (if bit_is_one es b k then 1 else 0)))"
proof -
  have r0: "edge_at es (int b + int (2 * k)) = Inr (es (b + 2 * k))"
    using assms edge_at_in_range [of "b + 2 * k" es] by simp
  have r1: "edge_at es (int b + int (2 * k) + 1) = Inr (es (b + 2 * k + 1))"
    using assms edge_at_in_range [of "b + 2 * k + 1" es] by (simp add: algebra_simps)
  have r2: "edge_at es (int b + int (2 * k) + 2) = Inr (es (b + 2 * k + 2))"
    using assms edge_at_in_range [of "b + 2 * k + 2" es] by (simp add: algebra_simps)
  have n: "nat (7 - int k) = 7 - k" using assms by simp
  have i: "2 * k < DHT_DATA_EDGES_PER_BYTE" using assms by (simp add: DHT_DATA_EDGES_PER_BYTE_def)
  show ?thesis
    apply (subst dht_decode_byte_loop.simps)
    apply (simp only: i if_True r0 r1 r2 sum.case n Let_def)
    apply (simp add: low_edge_def high_edge_def pulse_us_def bit_is_one_def
        DHT_DATA_BIT_1_DURATION_US_MAX_def DHT_DATA_BIT_0_DURATION_US_MAX_def)
    done
qed

lemma decode_done: "dht_decode_byte_loop es base 16 bo acc = Inr (DHT_OK, acc)"
  by (subst dht_decode_byte_loop.simps) (simp add: DHT_DATA_EDGES_PER_BYTE_def)

lemma msb_first_snoc: "msb_first (bs @ [b]) = 2 * msb_first bs + (if b then 1 else 0)"
  by (simp add: msb_first_def)

lemma partial_byte_Suc:
  assumes "k < 8"
  shows "partial_byte es b k OR push_bit (7 - k) (if bit_is_one es b k then 1 else 0) =
         partial_byte es b (Suc k)"
proof -
  define x where "x = msb_first (map (bit_is_one es b) [0..<k])"
  define v :: "8 word" where "v = (if bit_is_one es b k then 1 else 0)"
  have s: "8 - k = Suc (7 - k)" using assms by simp
  have "push_bit (8 - k) x OR push_bit (7 - k) v = push_bit (7 - k) (2 * x) OR push_bit (7 - k) v"
    unfolding s by (simp add: mult.commute)
  also have "\<dots> = push_bit (7 - k) (2 * x OR v)"
    by (simp add: push_bit_or)
  also have "2 * x OR v = 2 * x + v"
    by (simp add: v_def or_one_eq)
  also have "2 * x + v = msb_first (map (bit_is_one es b) [0..<Suc k])"
    by (simp add: x_def v_def msb_first_snoc)
  finally show ?thesis
    by (simp add: partial_byte_def x_def v_def)
qed

lemma partial_byte_0: "partial_byte es b 0 = 0"
  by (simp add: partial_byte_def msb_first_def)

lemma partial_byte_8: "partial_byte es b 8 = window_byte es b"
  by (simp add: partial_byte_def window_byte_def)

text \<open>While the bits are well-formed the loop walks on, holding the bits seen so far.\<close>

lemma decode_prefix:
  assumes "b + 16 < 84" "k \<le> 8" "\<forall>j<k. bit_ok es b j"
  shows "dht_decode_byte es (int b) =
         dht_decode_byte_loop es (int b) (2 * k) (7 - int k) (partial_byte es b k)"
  using assms(2,3)
proof (induction k)
  case 0
  show ?case by (simp add: dht_decode_byte_def DHT_MOST_SIGNIFICANT_BIT_OFFSET_def partial_byte_0)
next
  case (Suc k)
  then have ok: "bit_ok es b k" and k: "k < 8" by simp_all
  have "dht_decode_byte es (int b) =
        dht_decode_byte_loop es (int b) (2 * k) (7 - int k) (partial_byte es b k)"
    using Suc by simp
  also have "\<dots> = dht_decode_byte_loop es (int b) (2 * Suc k) (7 - int (Suc k))
             (partial_byte es b k OR push_bit (7 - k) (if bit_is_one es b k then 1 else 0))"
    using ok by (simp only: decode_step [OF k assms(1)])
      (simp add: bit_ok_def levels_ok_def not_less [symmetric])
  finally show ?case by (simp only: partial_byte_Suc [OF k])
qed

lemma decode_ok:
  assumes "b + 16 < 84" "\<forall>k<8. bit_ok es b k"
  shows "dht_decode_byte es (int b) = Inr (DHT_OK, window_byte es b)"
  using decode_prefix [OF assms(1), of 8 es] assms(2)
  by (simp add: decode_done partial_byte_8)

lemma decode_bad_levels:
  assumes "b + 16 < 84" "k < 8" "\<forall>j<k. bit_ok es b j" "\<not> levels_ok es b k"
  shows "dht_decode_byte es (int b) = Inr (DHT_ERR_SEQUENCE_INVALID, partial_byte es b k)"
proof -
  have "dht_decode_byte es (int b) =
        dht_decode_byte_loop es (int b) (2 * k) (7 - int k) (partial_byte es b k)"
    using decode_prefix [OF assms(1), of k es] assms(2,3) by simp
  also have "\<dots> = Inr (DHT_ERR_SEQUENCE_INVALID, partial_byte es b k)"
    using assms(4) by (simp only: decode_step [OF assms(2,1)]) (auto simp: levels_ok_def)
  finally show ?thesis .
qed

lemma decode_long_pulse:
  assumes "b + 16 < 84" "k < 8" "\<forall>j<k. bit_ok es b j" "levels_ok es b k" "80 < pulse_us es b k"
  shows "dht_decode_byte es (int b) = Inr (DHT_ERR_TIMEOUT, partial_byte es b k)"
proof -
  have "dht_decode_byte es (int b) =
        dht_decode_byte_loop es (int b) (2 * k) (7 - int k) (partial_byte es b k)"
    using decode_prefix [OF assms(1), of k es] assms(2,3) by simp
  also have "\<dots> = Inr (DHT_ERR_TIMEOUT, partial_byte es b k)"
    using assms(4,5) by (simp only: decode_step [OF assms(2,1)]) (auto simp: levels_ok_def)
  finally show ?thesis .
qed

text \<open>Bit \<open>n\<close> of the value of a bit string is its \<open>n\<close>-th element from the end.\<close>

lemma bit_msb_first:
  "length bs \<le> 8 \<Longrightarrow> bit (msb_first bs) n \<longleftrightarrow> n < length bs \<and> bs ! (length bs - 1 - n)"
proof (induction bs arbitrary: n rule: rev_induct)
  case Nil
  show ?case by (simp add: msb_first_def)
next
  case (snoc b bs)
  then have IH: "\<And>m. bit (msb_first bs) m \<longleftrightarrow> m < length bs \<and> bs ! (length bs - 1 - m)"
    and len: "length bs < 8" by simp_all
  show ?case
  proof (cases n)
    case 0
    then show ?thesis by (simp add: msb_first_snoc bit_0)
  next
    case (Suc m)
    have "bit (msb_first (bs @ [b])) (Suc m) \<longleftrightarrow> Suc m < 8 \<and> bit (msb_first bs) m"
      by (cases b)
        (auto simp add: msb_first_snoc bit_double_Suc_iff even_bit_succ_iff add.commute)
    then show ?thesis using Suc IH [of m] len
      by (auto simp: nth_append)
  qed
qed

lemma bit_window_byte:
  assumes "k < 8"
  shows "bit (window_byte es b) (7 - k) \<longleftrightarrow> bit_is_one es b k"
proof -
  have "7 - k < (8::nat)" by arith
  then show ?thesis using assms by (simp add: window_byte_def bit_msb_first)
qed

lemma all_less_list_all: "(\<forall>k<n. P k) \<longleftrightarrow> list_all P [0..<n]"
  by (auto simp: list_all_iff)

lemma follows_pattern_iff: "follows_pattern es \<longleftrightarrow> (\<forall>m<40. bit_ok es 2 m)"
  by (simp add: follows_pattern_def all_less_list_all)

lemma bit_ok_shift: "bit_ok es (b + 2 * m) k = bit_ok es b (m + k)"
  by (simp add: bit_ok_def levels_ok_def low_edge_def high_edge_def pulse_us_def algebra_simps)

lemma window_bits_ok:
  assumes "\<forall>m<40. m \<notin> skip \<longrightarrow> bit_ok es 2 m" "\<forall>k<8. byte * 8 + k \<notin> skip" "byte < 5"
  shows "\<forall>k<8. bit_ok es (2 + 16 * byte) k"
proof (intro allI impI)
  fix k :: nat assume k: "k < 8"
  have "bit_ok es (2 + 2 * (8 * byte)) k = bit_ok es 2 (8 * byte + k)"
    by (rule bit_ok_shift)
  moreover have "bit_ok es 2 (8 * byte + k)"
    using assms k by (simp add: mult.commute)
  ultimately show "bit_ok es (2 + 16 * byte) k" by simp
qed

text \<open>
  C6. \<^verbatim>\<open>dht_decode_byte\<close> on a 16-edge window that lies inside the timeline walks the
  8 bits in order, most significant first, each a triplet of edges \<open>(e0, e1, e2)\<close> at
  \<open>b + 2k\<close>: when all 8 bits have a low \<open>e0\<close>, a high \<open>e1\<close> and a duration
  \<open>e2.timestamp - e1.timestamp\<close> of at most 80 microseconds, the result is \<^verbatim>\<open>DHT_OK\<close>
  with the byte of the window; at the first bit whose \<open>e0\<close> is not low or whose \<open>e1\<close>
  is not high it returns \<^verbatim>\<open>DHT_ERR_SEQUENCE_INVALID\<close>; at the first bit with good
  levels and a duration above 80 it returns \<^verbatim>\<open>DHT_ERR_TIMEOUT\<close>; and bit \<open>7 - k\<close> of
  the byte is 1 exactly when the duration of bit \<open>k\<close> exceeds 35 microseconds.
\<close>

theorem dht_decode_byte_contract:
  assumes "b + 16 < 84"
  shows "((\<forall>k<8. bit_ok es b k) \<longrightarrow>
            dht_decode_byte es (int b) = Inr (DHT_OK, window_byte es b)) \<and>
         (\<forall>k<8. (\<forall>j<k. bit_ok es b j) \<and>
                 (level (es (b + 2 * k)) \<noteq> DHT_DATA_LOW \<or> level (es (b + 2 * k + 1)) \<noteq> DHT_DATA_HIGH) \<longrightarrow>
            dht_decode_byte es (int b) = Inr (DHT_ERR_SEQUENCE_INVALID, partial_byte es b k)) \<and>
         (\<forall>k<8. (\<forall>j<k. bit_ok es b j) \<and>
                 level (es (b + 2 * k)) = DHT_DATA_LOW \<and> level (es (b + 2 * k + 1)) = DHT_DATA_HIGH \<and>
                 80 < timestamp (es (b + 2 * k + 2)) - timestamp (es (b + 2 * k + 1)) \<longrightarrow>
            dht_decode_byte es (int b) = Inr (DHT_ERR_TIMEOUT, partial_byte es b k)) \<and>
         (\<forall>k<8. bit (window_byte es b) (7 - k) \<longleftrightarrow>
                 35 < timestamp (es (b + 2 * k + 2)) - timestamp (es (b + 2 * k + 1)))"
proof (intro conjI allI impI)
  assume "\<forall>k<8. bit_ok es b k"
  then show "dht_decode_byte es (int b) = Inr (DHT_OK, window_byte es b)"
    by (rule decode_ok [OF assms])
next
  fix k :: nat
  assume "k < 8"
    and "(\<forall>j<k. bit_ok es b j) \<and>
         (level (es (b + 2 * k)) \<noteq> DHT_DATA_LOW \<or> level (es (b + 2 * k + 1)) \<noteq> DHT_DATA_HIGH)"
  then show "dht_decode_byte es (int b) = Inr (DHT_ERR_SEQUENCE_INVALID, partial_byte es b k)"
    using decode_bad_levels [OF assms, of k es]
    by (auto simp: levels_ok_def low_edge_def high_edge_def)
next
  fix k :: nat
  assume "k < 8"
    and "(\<forall>j<k. bit_ok es b j) \<and>
         level (es (b + 2 * k)) = DHT_DATA_LOW \<and> level (es (b + 2 * k + 1)) = DHT_DATA_HIGH \<and>
         80 < timestamp (es (b + 2 * k + 2)) - timestamp (es (b + 2 * k + 1))"
  then show "dht_decode_byte es (int b) = Inr (DHT_ERR_TIMEOUT, partial_byte es b k)"
    using decode_long_pulse [OF assms, of k es]
    by (auto simp: levels_ok_def low_edge_def high_edge_def pulse_us_def)
next
  fix k :: nat
  assume "k < 8"
  then show "bit (window_byte es b) (7 - k) \<longleftrightarrow>
             35 < timestamp (es (b + 2 * k + 2)) - timestamp (es (b + 2 * k + 1))"
    by (simp add: bit_window_byte bit_is_one_def pulse_us_def)
qed


text \<open>
  The contract at three captured frames: the byte 180 decoded from a clean frame, the
  same frame with the low edge of bit 3 read high, and with the pulse of bit 3 stretched
  to 120 microseconds (both leave the three bits stored so far, 160).
\<close>

theorem dht_decode_byte_contract_witness:
  "dht_decode_byte (edges (sensor_frame 1000 [180, 0, 25, 0, 205])) 2 = Inr (DHT_OK, 180) \<and>
   dht_decode_byte
     (edges (captured (with_level 8 DHT_DATA_HIGH (frame_edges 1000 (byte_widths [180, 0, 25, 0, 205])))))
     2 = Inr (DHT_ERR_SEQUENCE_INVALID, 160) \<and>
   dht_decode_byte
     (edges (captured (frame_edges 1000 ((byte_widths [180, 0, 25, 0, 205])[3 := 120]))))
     2 = Inr (DHT_ERR_TIMEOUT, 160) \<and>
   bit (window_byte (edges (sensor_frame 1000 [180, 0, 25, 0, 205])) 2) (7 - 0)"
proof -
  let ?E1 = "edges (sensor_frame 1000 [180, 0, 25, 0, 205])"
  let ?E2 = "edges (captured (with_level 8 DHT_DATA_HIGH
                (frame_edges 1000 (byte_widths [180, 0, 25, 0, 205]))))"
  let ?E3 = "edges (captured (frame_edges 1000 ((byte_widths [180, 0, 25, 0, 205])[3 := 120])))"
  have r: "(2::nat) + 16 < 84" by simp
  have ok1: "\<forall>k<8. bit_ok ?E1 2 k"
    unfolding all_less_list_all by code_simp
  have v1: "window_byte ?E1 2 = 180" by code_simp
  have pre2: "\<forall>j<3. bit_ok ?E2 2 j"
    unfolding all_less_list_all by code_simp
  have bad2: "level (?E2 (2 + 2 * 3)) \<noteq> DHT_DATA_LOW" by code_simp
  have p2: "partial_byte ?E2 2 3 = 160" by code_simp
  have pre3: "\<forall>j<3. bit_ok ?E3 2 j"
    unfolding all_less_list_all by code_simp
  have lv3: "level (?E3 (2 + 2 * 3)) = DHT_DATA_LOW" "level (?E3 (2 + 2 * 3 + 1)) = DHT_DATA_HIGH"
    by code_simp+
  have long3: "80 < timestamp (?E3 (2 + 2 * 3 + 2)) - timestamp (?E3 (2 + 2 * 3 + 1))"
    by code_simp
  have p3: "partial_byte ?E3 2 3 = 160" by code_simp
  have one: "35 < timestamp (?E1 (2 + 2 * 0 + 2)) - timestamp (?E1 (2 + 2 * 0 + 1))"
    by code_simp
  have c1: "dht_decode_byte ?E1 2 = Inr (DHT_OK, 180)"
    using dht_decode_byte_contract [OF r, of ?E1] ok1 v1 by simp
  have c2: "dht_decode_byte ?E2 2 = Inr (DHT_ERR_SEQUENCE_INVALID, 160)"
    using dht_decode_byte_contract [OF r, of ?E2, THEN conjunct2, THEN conjunct1, rule_format, of 3]
      pre2 bad2 p2 by simp
  have c3: "dht_decode_byte ?E3 2 = Inr (DHT_ERR_TIMEOUT, 160)"
    using dht_decode_byte_contract [OF r, of ?E3, THEN conjunct2, THEN conjunct2, THEN conjunct1,
        rule_format, of 3] pre3 lv3 long3 p3 by simp
  have c4: "bit (window_byte ?E1 2) (7 - 0)"
    using dht_decode_byte_contract [OF r, of ?E1, THEN conjunct2, THEN conjunct2, THEN conjunct2,
        rule_format, of 0] one by simp
  show ?thesis using c1 c2 c3 c4 by simp
qed

section \<open>The frame decoder\<close>

lemma check_status_ready:
  "current_edge self = 84 \<Longrightarrow> dht_check_status now self = Inr DHT_DATA_READY"
  by (simp add: dht_check_status_def DHT_NO_DATA_AVAILABLE_def DHT_EDGES_NUMBER_def)

lemma reading_updates:
  "r\<lparr>integral := h, decimal := d\<rparr> = \<lparr>integral = h, decimal = d\<rparr>"
  by (cases r) simp

lemma data_updates:
  "data\<lparr>humidity := hm, temperature := tm, crc := c\<rparr> =
   \<lparr>humidity = hm, temperature = tm, crc = c\<rparr>"
  by (cases data) simp

text \<open>The checksum of the source, computed on 32 bits, is the sum of the bytes on 8 bits.\<close>

lemma crc_sum_ucast:
  fixes h t :: "8 word"
  shows "((ucast h + 0 + ucast t + 0) AND 0xFF :: 32 word) = ucast (h + t)"
proof -
  have m: "(0xFF :: 32 word) = mask 8" by (simp add: mask_eq_exp_minus_1)
  have hb: "uint h < 256" using unsigned_less [of h, where 'a = int] by simp
  have tb: "uint t < 256" using unsigned_less [of t, where 'a = int] by simp
  have s: "uint (ucast h + ucast t :: 32 word) = uint h + uint t"
    using hb tb by (simp add: uint_word_ariths unsigned_ucast_eq take_bit_eq_mod)
  have "uint ((ucast h + ucast t :: 32 word) AND mask 8) = (uint h + uint t) mod 256"
    unfolding take_bit_eq_mask [symmetric] unsigned_take_bit_eq s
    by (simp add: take_bit_eq_mod)
  moreover have "uint (ucast (h + t) :: 32 word) = (uint h + uint t) mod 256"
    by (simp add: unsigned_ucast_eq uint_word_ariths take_bit_eq_mod)
  ultimately show ?thesis by (simp add: m word_uint_eq_iff)
qed

lemma uint_ucast_byte: "uint (ucast w :: 32 word) = uint w" for w :: "8 word"
proof -
  have "uint w < 2 ^ 32"
    using unsigned_less [of w, where 'a = int] by simp
  then show ?thesis
    by (simp add: unsigned_ucast_eq take_bit_int_eq_self)
qed

lemma crc_matches_iff:
  fixes h t c :: "8 word"
  shows "((ucast h + ucast t) AND 255 :: 32 word) = ucast c \<longleftrightarrow> c = h + t"
proof -
  have "(ucast (h + t) :: 32 word) = ucast c \<longleftrightarrow> h + t = c"
    by (simp only: word_uint_eq_iff uint_ucast_byte)
  then show ?thesis using crc_sum_ucast [of h t] by auto
qed

lemma get_data_decoded:
  assumes "current_edge self = 84"
    and "dht_decode_byte (edges self) 2 = Inr (DHT_OK, h)"
    and "dht_decode_byte (edges self) 34 = Inr (DHT_OK, t)"
    and "dht_decode_byte (edges self) 66 = Inr (st, c)"
  shows "dht_get_data now self data =
         Inr (if c = h + t then DHT_OK else DHT_ERR_CRC,
              \<lparr>humidity = \<lparr>integral = h, decimal = 0\<rparr>,
               temperature = \<lparr>integral = t, decimal = 0\<rparr>, crc = c\<rparr>)"
  using assms
  by (simp add: dht_get_data_def check_status_ready DHT_INTEGRAL_RH_EDGES_INDEX_def
      DHT_INTEGRAL_T_EDGES_INDEX_def DHT_CHECKSUM_EDGES_INDEX_def dht_calculate_data_crc_def
      crc_matches_iff reading_updates data_updates Let_def)

lemma get_data_humidity_failed:
  assumes "current_edge self = 84"
    and "dht_decode_byte (edges self) 2 = Inr (st, h)" "st \<noteq> DHT_OK"
  shows "dht_get_data now self data =
         Inr (st, data\<lparr>humidity := (humidity data)\<lparr>integral := h\<rparr>\<rparr>)"
  using assms
  by (simp add: dht_get_data_def check_status_ready DHT_INTEGRAL_RH_EDGES_INDEX_def)

lemma get_data_temperature_failed:
  assumes "current_edge self = 84"
    and "dht_decode_byte (edges self) 2 = Inr (DHT_OK, h)"
    and "dht_decode_byte (edges self) 34 = Inr (st, t)" "st \<noteq> DHT_OK"
  shows "dht_get_data now self data =
         Inr (st, data\<lparr>humidity := \<lparr>integral = h, decimal = 0\<rparr>,
                       temperature := (temperature data)\<lparr>integral := t\<rparr>\<rparr>)"
  using assms
  by (simp add: dht_get_data_def check_status_ready DHT_INTEGRAL_RH_EDGES_INDEX_def
      DHT_INTEGRAL_T_EDGES_INDEX_def reading_updates)

lemma byte_eq_sum_iff:
  fixes h t c :: "8 word"
  shows "c = h + t \<longleftrightarrow> unat c = (unat h + 0 + unat t + 0) mod 256"
  by (simp add: word_unat_eq_iff unat_word_ariths)

lemma get_data_windows:
  assumes "current_edge self = 84"
    and "\<forall>k<8. bit_ok (edges self) 2 k"
    and "\<forall>k<8. bit_ok (edges self) 34 k"
    and "\<forall>k<8. bit_ok (edges self) 66 k"
  shows "dht_get_data now self data =
           Inr (if unat (window_byte (edges self) 66) =
                   (unat (window_byte (edges self) 2) + 0 + unat (window_byte (edges self) 34) + 0) mod 256
                then DHT_OK else DHT_ERR_CRC,
                \<lparr>humidity = \<lparr>integral = window_byte (edges self) 2, decimal = 0\<rparr>,
                 temperature = \<lparr>integral = window_byte (edges self) 34, decimal = 0\<rparr>,
                 crc = window_byte (edges self) 66\<rparr>)"
proof -
  have h: "dht_decode_byte (edges self) 2 = Inr (DHT_OK, window_byte (edges self) 2)"
    using decode_ok [of 2 "edges self"] assms(2) by simp
  have t: "dht_decode_byte (edges self) 34 = Inr (DHT_OK, window_byte (edges self) 34)"
    using decode_ok [of 34 "edges self"] assms(3) by simp
  have c: "dht_decode_byte (edges self) 66 = Inr (DHT_OK, window_byte (edges self) 66)"
    using decode_ok [of 66 "edges self"] assms(4) by simp
  show ?thesis
    unfolding get_data_decoded [OF assms(1) h t c] byte_eq_sum_iff ..
qed

text \<open>
  C1, amended. For every timeline of exactly 84 edges that follows the level and
  duration pattern, \<^verbatim>\<open>dht_get_data\<close> stores the humidity and temperature integral
  bytes decoded most significant bit first from the windows at edges 2 and 34, the two
  decimal fields as 0 and the checksum byte of the window at edge 66; it returns
  \<^verbatim>\<open>DHT_OK\<close> when that checksum byte equals the sum of the four stored fields modulo
  256, and \<^verbatim>\<open>DHT_ERR_CRC\<close> when it does not. The pattern alone does not give
  \<^verbatim>\<open>DHT_OK\<close>: the checksum on the wire has to agree with the integral bytes.
\<close>

theorem dht_get_data_valid_timeline:
  assumes "current_edge self = DHT_EDGES_NUMBER" and "follows_pattern (edges self)"
  shows "dht_get_data now self data =
           Inr (if unat (window_byte (edges self) 66) =
                   (unat (window_byte (edges self) 2) + 0 + unat (window_byte (edges self) 34) + 0) mod 256
                then DHT_OK else DHT_ERR_CRC,
                \<lparr>humidity = \<lparr>integral = window_byte (edges self) 2, decimal = 0\<rparr>,
                 temperature = \<lparr>integral = window_byte (edges self) 34, decimal = 0\<rparr>,
                 crc = window_byte (edges self) 66\<rparr>)"
proof -
  have all: "\<forall>m<40. m \<notin> {} \<longrightarrow> bit_ok (edges self) 2 m"
    using assms(2) by (simp add: follows_pattern_iff)
  have "\<forall>k<8. bit_ok (edges self) (2 + 16 * 0) k"
    by (rule window_bits_ok [OF all]) simp_all
  moreover have "\<forall>k<8. bit_ok (edges self) (2 + 16 * 2) k"
    by (rule window_bits_ok [OF all]) simp_all
  moreover have "\<forall>k<8. bit_ok (edges self) (2 + 16 * 4) k"
    by (rule window_bits_ok [OF all]) simp_all
  ultimately show ?thesis
    using get_data_windows [of self now data] assms(1) by (simp add: DHT_EDGES_NUMBER_def)
qed

text \<open>
  The scenario of the specification: humidity 44, temperature 25, decimals 0,
  checksum 69.
\<close>

theorem dht_get_data_valid_timeline_witness:
  "current_edge (sensor_frame 1000 [44, 0, 25, 0, 69]) = DHT_EDGES_NUMBER \<and>
   follows_pattern (edges (sensor_frame 1000 [44, 0, 25, 0, 69])) \<and>
   dht_get_data 5000 (sensor_frame 1000 [44, 0, 25, 0, 69]) blank_data =
     Inr (DHT_OK,
          \<lparr>humidity = \<lparr>integral = 44, decimal = 0\<rparr>,
           temperature = \<lparr>integral = 25, decimal = 0\<rparr>, crc = 69\<rparr>)"
proof -
  let ?S = "sensor_frame 1000 [44, 0, 25, 0, 69]"
  have ce: "current_edge ?S = DHT_EDGES_NUMBER" by code_simp
  have pat: "follows_pattern (edges ?S)" by code_simp
  have h: "window_byte (edges ?S) 2 = 44" by code_simp
  have t: "window_byte (edges ?S) 34 = 25" by code_simp
  have c: "window_byte (edges ?S) 66 = 69" by code_simp
  show ?thesis
    using dht_get_data_valid_timeline [OF ce pat, of 5000 blank_data] ce pat
    by (simp add: h t c)
qed

text \<open>
  A frame that follows the pattern and is not accepted: the sensor sends the decimals 3
  and 7 and the checksum \<open>44 + 3 + 25 + 7 = 79\<close> of its four bytes; the decoder takes the
  decimals as 0 and reports a checksum failure.
\<close>

theorem dht_get_data_valid_timeline_counterexample:
  "current_edge (sensor_frame 1000 [44, 3, 25, 7, 79]) = DHT_EDGES_NUMBER \<and>
   follows_pattern (edges (sensor_frame 1000 [44, 3, 25, 7, 79])) \<and>
   dht_get_data 5000 (sensor_frame 1000 [44, 3, 25, 7, 79]) blank_data =
     Inr (DHT_ERR_CRC,
          \<lparr>humidity = \<lparr>integral = 44, decimal = 0\<rparr>,
           temperature = \<lparr>integral = 25, decimal = 0\<rparr>, crc = 79\<rparr>)"
  by code_simp

text \<open>
  C7. Once the humidity and temperature integral bytes are decoded, \<^verbatim>\<open>dht_get_data\<close>
  compares the byte left by the decode of the checksum window with the sum of the four
  stored fields modulo 256 and returns \<^verbatim>\<open>DHT_ERR_CRC\<close> on a mismatch, \<^verbatim>\<open>DHT_OK\<close>
  otherwise. The status \<open>st\<close> of the checksum decode is arbitrary here: a failed decode
  of the checksum byte does not return early, the comparison decides.
\<close>

theorem dht_get_data_crc_check:
  assumes "current_edge self = DHT_EDGES_NUMBER"
    and "dht_decode_byte (edges self) DHT_INTEGRAL_RH_EDGES_INDEX = Inr (DHT_OK, h)"
    and "dht_decode_byte (edges self) DHT_INTEGRAL_T_EDGES_INDEX = Inr (DHT_OK, t)"
    and "dht_decode_byte (edges self) DHT_CHECKSUM_EDGES_INDEX = Inr (st, c)"
  shows "dht_get_data now self data =
           Inr (if unat c = (unat h + 0 + unat t + 0) mod 256 then DHT_OK else DHT_ERR_CRC,
                \<lparr>humidity = \<lparr>integral = h, decimal = 0\<rparr>,
                 temperature = \<lparr>integral = t, decimal = 0\<rparr>, crc = c\<rparr>)"
  using get_data_decoded [of self h t st c now data] assms
  unfolding byte_eq_sum_iff
  by (simp add: DHT_EDGES_NUMBER_def DHT_INTEGRAL_RH_EDGES_INDEX_def
      DHT_INTEGRAL_T_EDGES_INDEX_def DHT_CHECKSUM_EDGES_INDEX_def)

text \<open>
  Two frames whose checksum window fails to decode at its last bit (edge 80 reads high),
  leaving 68 in the checksum byte: with the sum 69 the result is \<^verbatim>\<open>DHT_ERR_CRC\<close>, with
  the sum 68 it is \<^verbatim>\<open>DHT_OK\<close>.
\<close>

theorem dht_get_data_crc_check_witness:
  "dht_decode_byte
     (edges (captured (with_level 80 DHT_DATA_HIGH (frame_edges 1000 (byte_widths [44, 0, 25, 0, 69])))))
     DHT_CHECKSUM_EDGES_INDEX = Inr (DHT_ERR_SEQUENCE_INVALID, 68) \<and>
   dht_get_data 5000
     (captured (with_level 80 DHT_DATA_HIGH (frame_edges 1000 (byte_widths [44, 0, 25, 0, 69]))))
     blank_data =
     Inr (DHT_ERR_CRC,
          \<lparr>humidity = \<lparr>integral = 44, decimal = 0\<rparr>,
           temperature = \<lparr>integral = 25, decimal = 0\<rparr>, crc = 68\<rparr>) \<and>
   dht_decode_byte
     (edges (captured (with_level 80 DHT_DATA_HIGH (frame_edges 1000 (byte_widths [44, 0, 24, 0, 69])))))
     DHT_CHECKSUM_EDGES_INDEX = Inr (DHT_ERR_SEQUENCE_INVALID, 68) \<and>
   dht_get_data 5000
     (captured (with_level 80 DHT_DATA_HIGH (frame_edges 1000 (byte_widths [44, 0, 24, 0, 69]))))
     blank_data =
     Inr (DHT_OK,
          \<lparr>humidity = \<lparr>integral = 44, decimal = 0\<rparr>,
           temperature = \<lparr>integral = 24, decimal = 0\<rparr>, crc = 68\<rparr>)"
proof -
  let ?A = "captured (with_level 80 DHT_DATA_HIGH (frame_edges 1000 (byte_widths [44, 0, 25, 0, 69])))"
  let ?B = "captured (with_level 80 DHT_DATA_HIGH (frame_edges 1000 (byte_widths [44, 0, 24, 0, 69])))"
  have a: "current_edge ?A = DHT_EDGES_NUMBER"
    "dht_decode_byte (edges ?A) DHT_INTEGRAL_RH_EDGES_INDEX = Inr (DHT_OK, 44)"
    "dht_decode_byte (edges ?A) DHT_INTEGRAL_T_EDGES_INDEX = Inr (DHT_OK, 25)"
    "dht_decode_byte (edges ?A) DHT_CHECKSUM_EDGES_INDEX = Inr (DHT_ERR_SEQUENCE_INVALID, 68)"
    by code_simp+
  have b: "current_edge ?B = DHT_EDGES_NUMBER"
    "dht_decode_byte (edges ?B) DHT_INTEGRAL_RH_EDGES_INDEX = Inr (DHT_OK, 44)"
    "dht_decode_byte (edges ?B) DHT_INTEGRAL_T_EDGES_INDEX = Inr (DHT_OK, 24)"
    "dht_decode_byte (edges ?B) DHT_CHECKSUM_EDGES_INDEX = Inr (DHT_ERR_SEQUENCE_INVALID, 68)"
    by code_simp+
  show ?thesis
    using dht_get_data_crc_check [OF a, of 5000 blank_data]
      dht_get_data_crc_check [OF b, of 5000 blank_data] a(4) b(4)
    by simp
qed

text \<open>
  C8, amended. In a timeline of exactly 84 edges, let the low edge of one data bit read
  high and every other bit be well-formed. When the bit lies in the humidity-integral
  window (offset 2) or in the temperature-integral window (offset 34),
  \<^verbatim>\<open>dht_get_data\<close> returns \<^verbatim>\<open>DHT_ERR_SEQUENCE_INVALID\<close>. When it lies in the
  humidity-decimal or temperature-decimal window (offsets 18 and 50), which are never
  decoded, the result is that of the checksum comparison: \<^verbatim>\<open>DHT_OK\<close> or
  \<^verbatim>\<open>DHT_ERR_CRC\<close>, with the fields of the three decoded windows.
\<close>

theorem dht_get_data_bad_low_edge:
  assumes "current_edge self = DHT_EDGES_NUMBER"
    and "level (edges self (2 + 2 * n)) = DHT_DATA_HIGH"
    and "\<forall>m<40. m \<noteq> n \<longrightarrow> bit_ok (edges self) 2 m"
  shows "(n < 8 \<or> (16 \<le> n \<and> n < 24) \<longrightarrow>
            (\<exists>d. dht_get_data now self data = Inr (DHT_ERR_SEQUENCE_INVALID, d))) \<and>
         ((8 \<le> n \<and> n < 16) \<or> (24 \<le> n \<and> n < 32) \<longrightarrow>
            dht_get_data now self data =
              Inr (if unat (window_byte (edges self) 66) =
                      (unat (window_byte (edges self) 2) + 0 +
                       unat (window_byte (edges self) 34) + 0) mod 256
                   then DHT_OK else DHT_ERR_CRC,
                   \<lparr>humidity = \<lparr>integral = window_byte (edges self) 2, decimal = 0\<rparr>,
                    temperature = \<lparr>integral = window_byte (edges self) 34, decimal = 0\<rparr>,
                    crc = window_byte (edges self) 66\<rparr>))"
proof (intro conjI impI)
  let ?es = "edges self"
  have ce: "current_edge self = 84" using assms(1) by (simp add: DHT_EDGES_NUMBER_def)
  have rest: "\<forall>m<40. m \<notin> {n} \<longrightarrow> bit_ok ?es 2 m" using assms(3) by simp
  assume "n < 8 \<or> (16 \<le> n \<and> n < 24)"
  then show "\<exists>d. dht_get_data now self data = Inr (DHT_ERR_SEQUENCE_INVALID, d)"
  proof
    assume n: "n < 8"
    have pre: "\<forall>j<n. bit_ok ?es 2 j" using assms(3) n by simp
    have bad: "\<not> levels_ok ?es 2 n"
      using assms(2) by (simp add: levels_ok_def low_edge_def)
    have "dht_decode_byte ?es 2 = Inr (DHT_ERR_SEQUENCE_INVALID, partial_byte ?es 2 n)"
      using decode_bad_levels [of 2 n ?es] n pre bad by simp
    then show ?thesis
      using get_data_humidity_failed [OF ce, of DHT_ERR_SEQUENCE_INVALID _ now data] by auto
  next
    assume n: "16 \<le> n \<and> n < 24"
    have "\<forall>k<8. bit_ok ?es (2 + 16 * 0) k"
      by (rule window_bits_ok [OF rest]) (use n in simp_all)
    then have h: "dht_decode_byte ?es 2 = Inr (DHT_OK, window_byte ?es 2)"
      using decode_ok [of 2 ?es] by simp
    have pre: "\<forall>j<n - 16. bit_ok ?es 34 j"
    proof (intro allI impI)
      fix j assume "j < n - 16"
      then have "16 + j < 40" "16 + j \<noteq> n" using n by arith+
      then have "bit_ok ?es 2 (16 + j)" using assms(3) by blast
      then show "bit_ok ?es 34 j" using bit_ok_shift [of ?es 2 16 j] by simp
    qed
    have "34 + 2 * (n - 16) = 2 + 2 * n" using n by arith
    then have "level (low_edge ?es 34 (n - 16)) = DHT_DATA_HIGH"
      unfolding low_edge_def using assms(2) by (simp only:)
    then have bad: "\<not> levels_ok ?es 34 (n - 16)"
      by (simp add: levels_ok_def)
    have "dht_decode_byte ?es 34 = Inr (DHT_ERR_SEQUENCE_INVALID, partial_byte ?es 34 (n - 16))"
    proof -
      have "n - 16 < 8" using n by arith
      then show ?thesis using decode_bad_levels [of 34 "n - 16" ?es] pre bad by simp
    qed
    then show ?thesis
      using get_data_temperature_failed [OF ce h, of DHT_ERR_SEQUENCE_INVALID _ now data] by auto
  qed
next
  let ?es = "edges self"
  have ce: "current_edge self = 84" using assms(1) by (simp add: DHT_EDGES_NUMBER_def)
  have rest: "\<forall>m<40. m \<notin> {n} \<longrightarrow> bit_ok ?es 2 m" using assms(3) by simp
  assume n: "(8 \<le> n \<and> n < 16) \<or> (24 \<le> n \<and> n < 32)"
  have "\<forall>k<8. bit_ok ?es (2 + 16 * 0) k"
    by (rule window_bits_ok [OF rest]) (use n in auto)
  moreover have "\<forall>k<8. bit_ok ?es (2 + 16 * 2) k"
    by (rule window_bits_ok [OF rest]) (use n in auto)
  moreover have "\<forall>k<8. bit_ok ?es (2 + 16 * 4) k"
    by (rule window_bits_ok [OF rest]) (use n in auto)
  ultimately show "dht_get_data now self data =
              Inr (if unat (window_byte (edges self) 66) =
                      (unat (window_byte (edges self) 2) + 0 +
                       unat (window_byte (edges self) 34) + 0) mod 256
                   then DHT_OK else DHT_ERR_CRC,
                   \<lparr>humidity = \<lparr>integral = window_byte (edges self) 2, decimal = 0\<rparr>,
                    temperature = \<lparr>integral = window_byte (edges self) 34, decimal = 0\<rparr>,
                    crc = window_byte (edges self) 66\<rparr>)"
    using get_data_windows [OF ce, of now data] by simp
qed

text \<open>
  The scenario frame with one low edge read high: bit 3 of the humidity byte, bit 3 of
  the temperature byte, and the first bit of the temperature-decimal byte.
\<close>

theorem dht_get_data_bad_low_edge_witness:
  "(\<exists>d. dht_get_data 5000
          (captured (with_level 8 DHT_DATA_HIGH (frame_edges 1000 (byte_widths [44, 0, 25, 0, 69]))))
          blank_data = Inr (DHT_ERR_SEQUENCE_INVALID, d)) \<and>
   (\<exists>d. dht_get_data 5000
          (captured (with_level 40 DHT_DATA_HIGH (frame_edges 1000 (byte_widths [44, 0, 25, 0, 69]))))
          blank_data = Inr (DHT_ERR_SEQUENCE_INVALID, d)) \<and>
   dht_get_data 5000
     (captured (with_level 50 DHT_DATA_HIGH (frame_edges 1000 (byte_widths [44, 0, 25, 0, 69]))))
     blank_data =
     Inr (DHT_OK,
          \<lparr>humidity = \<lparr>integral = 44, decimal = 0\<rparr>,
           temperature = \<lparr>integral = 25, decimal = 0\<rparr>, crc = 69\<rparr>)"
proof -
  let ?H = "captured (with_level 8 DHT_DATA_HIGH (frame_edges 1000 (byte_widths [44, 0, 25, 0, 69])))"
  let ?T = "captured (with_level 40 DHT_DATA_HIGH (frame_edges 1000 (byte_widths [44, 0, 25, 0, 69])))"
  let ?D = "captured (with_level 50 DHT_DATA_HIGH (frame_edges 1000 (byte_widths [44, 0, 25, 0, 69])))"
  have h: "current_edge ?H = DHT_EDGES_NUMBER"
    "level (edges ?H (2 + 2 * 3)) = DHT_DATA_HIGH"
    "\<forall>m<40. m \<noteq> 3 \<longrightarrow> bit_ok (edges ?H) 2 m"
    unfolding all_less_list_all by code_simp+
  have t: "current_edge ?T = DHT_EDGES_NUMBER"
    "level (edges ?T (2 + 2 * 19)) = DHT_DATA_HIGH"
    "\<forall>m<40. m \<noteq> 19 \<longrightarrow> bit_ok (edges ?T) 2 m"
    unfolding all_less_list_all by code_simp+
  have d: "current_edge ?D = DHT_EDGES_NUMBER"
    "level (edges ?D (2 + 2 * 24)) = DHT_DATA_HIGH"
    "\<forall>m<40. m \<noteq> 24 \<longrightarrow> bit_ok (edges ?D) 2 m"
    unfolding all_less_list_all by code_simp+
  have v: "window_byte (edges ?D) 2 = 44" "window_byte (edges ?D) 34 = 25"
    "window_byte (edges ?D) 66 = 69"
    by code_simp+
  show ?thesis
    using dht_get_data_bad_low_edge [OF h, of 5000 blank_data]
      dht_get_data_bad_low_edge [OF t, of 5000 blank_data]
      dht_get_data_bad_low_edge [OF d, of 5000 blank_data]
    by (simp add: v)
qed

text \<open>
  The frame with the first low edge of the humidity-decimal window (edge 18) read high
  is accepted with \<^verbatim>\<open>DHT_OK\<close>.
\<close>

theorem dht_get_data_bad_low_edge_counterexample:
  "current_edge
     (captured (with_level 18 DHT_DATA_HIGH (frame_edges 1000 (byte_widths [44, 0, 25, 0, 69]))))
     = DHT_EDGES_NUMBER \<and>
   level (edges
     (captured (with_level 18 DHT_DATA_HIGH (frame_edges 1000 (byte_widths [44, 0, 25, 0, 69]))))
     (nat DHT_DECIMAL_RH_EDGES_INDEX)) = DHT_DATA_HIGH \<and>
   list_all
     (\<lambda>m. m = 8 \<or> bit_ok (edges
        (captured (with_level 18 DHT_DATA_HIGH (frame_edges 1000 (byte_widths [44, 0, 25, 0, 69])))))
        2 m) [0..<40] \<and>
   dht_get_data 5000
     (captured (with_level 18 DHT_DATA_HIGH (frame_edges 1000 (byte_widths [44, 0, 25, 0, 69]))))
     blank_data =
     Inr (DHT_OK,
          \<lparr>humidity = \<lparr>integral = 44, decimal = 0\<rparr>,
           temperature = \<lparr>integral = 25, decimal = 0\<rparr>, crc = 69\<rparr>)"
  by code_simp

section \<open>Status names\<close>

lemma dht_status_to_str_others:
  "dht_status_to_str DHT_OK = ''DHT_OK'' \<and>
   dht_status_to_str DHT_DATA_READY = ''DHT_DATA_READY'' \<and>
   dht_status_to_str DHT_ERR_TIMEOUT = ''DHT_ERR_TIMEOUT'' \<and>
   dht_status_to_str DHT_ERR_SEQUENCE_INVALID = ''DHT_ERR_SEQUENCE_INVALID'' \<and>
   dht_status_to_str DHT_ERR_CRC = ''DHT_ERR_CRC''"
  by (simp add: dht_status_to_str_def dht_status_name_def)

text \<open>
  C9. The specification asks that \<^verbatim>\<open>dht_status_to_str\<close> gives every status a name of
  its own, and in particular that \<^verbatim>\<open>DHT_BUSY\<close> and \<^verbatim>\<open>DHT_NO_DATA\<close> have different
  names. The source does not: the branch for \<^verbatim>\<open>DHT_BUSY\<close> returns the string of \<^verbatim>\<open>DHT_NO_DATA\<close>, so the two
  statuses share one name.
\<close>

theorem dht_status_to_str_collision:
  "dht_status_to_str DHT_BUSY = ''DHT_NO_DATA'' \<and>
   dht_status_to_str DHT_NO_DATA = ''DHT_NO_DATA'' \<and>
   dht_status_to_str DHT_BUSY = dht_status_to_str DHT_NO_DATA"
  by (simp add: dht_status_to_str_def dht_status_name_def)

section \<open>Status query\<close>

text \<open>With at least one edge recorded the query compares the age of the last edge.\<close>

lemma dht_check_status_in_progress:
  assumes "0 < current_edge self" "current_edge self < 84"
  shows "dht_check_status now self =
         Inr (if now - timestamp (edges self (nat (current_edge self - 1))) > 100
              then DHT_ERR_TIMEOUT else DHT_BUSY)"
  using assms
  by (simp add: dht_check_status_def edge_at_def DHT_NO_DATA_AVAILABLE_def DHT_EDGES_NUMBER_def
      DHT_NEW_EDGE_TIMEOUT_US_def Let_def)

text \<open>
  C3. The specification asks that for \<open>0 \<le> current_edge < 84\<close> the query answers busy
  or timed out from the age of the most recent edge, and at \<open>current_edge = 0\<close> the timestamp it reads is
  a slot of the timeline. The source reads \<^verbatim>\<open>edges[current_edge - 1]\<close>: with the cursor
  at 0 that is \<^verbatim>\<open>edges[-1]\<close>, one slot before the array, whatever the clock and the
  contents of the timeline are.
\<close>

theorem dht_check_status_cursor_zero:
  "dht_check_status now (self\<lparr>current_edge := 0\<rparr>) = Inl (EdgeIndexOutOfBounds (- 1))"
  by (simp add: dht_check_status_def edge_at_def DHT_NO_DATA_AVAILABLE_def DHT_EDGES_NUMBER_def)

section \<open>Abort\<close>

text \<open>
  C2. The specification asks that after \<^verbatim>\<open>dht_abort_read\<close>, called directly or by
  \<^verbatim>\<open>dht_start_read\<close> when the acknowledge wait expires, the cursor is the no-data marker \<open>-1\<close> and the
  status query answers \<^verbatim>\<open>DHT_NO_DATA\<close>. The source stores the status constant
  \<^verbatim>\<open>DHT_NO_DATA\<close> (value 1) into the cursor: from every state the cursor is 1 after
  the abort, the query reads slot 0 and answers busy or timed out, and a start whose
  acknowledge wait expires without an edge returns \<^verbatim>\<open>DHT_ERR_TIMEOUT\<close> with the cursor
  at 1 (in general: \<open>start_read_no_acknowledge\<close> below).
\<close>

theorem dht_abort_read_cursor:
  "current_edge (dht_abort_read self) = 1 \<and>
   current_edge (dht_abort_read self) \<noteq> DHT_NO_DATA_AVAILABLE \<and>
   dht_check_status now (dht_abort_read self) =
     Inr (if now - timestamp (edges self 0) > 100 then DHT_ERR_TIMEOUT else DHT_BUSY) \<and>
   dht_start_read
     \<lparr>start_signal_irqs = [], ack_irqs = [], ack_start_time = 1000,
      ack_polls = [\<lparr>poll_irqs = [], poll_clock = 1030\<rparr>, \<lparr>poll_irqs = [], poll_clock = 1061\<rparr>]\<rparr>
     self = Some (DHT_ERR_TIMEOUT, self\<lparr>current_edge := 1\<rparr>)"
  by (simp add: dht_abort_read_def dht_check_status_def edge_at_def DHT_NO_DATA_AVAILABLE_def
      DHT_EDGES_NUMBER_def DHT_NEW_EDGE_TIMEOUT_US_def dht_start_read_def DHT_ACK_TIMEOUT_US_def
      Let_def)

section \<open>Edge capture and the cursor\<close>

lemma handle_edge_cursor:
  "current_edge (fst (dht_handle_data_line_edge lv now self)) =
     (if (current_edge self = 0 \<and> lv = DHT_DATA_LOW) \<or>
         (0 < current_edge self \<and> current_edge self < 84)
      then current_edge self + 1 else current_edge self)"
  by (simp add: dht_handle_data_line_edge_def DHT_EDGES_NUMBER_def Let_def)

lemma handle_edge_le:
  "current_edge self \<le> 84 \<Longrightarrow> current_edge (fst (dht_handle_data_line_edge lv now self)) \<le> 84"
  by (simp add: handle_edge_cursor)

lemma handle_edge_full:
  "84 \<le> current_edge self \<Longrightarrow> dht_handle_data_line_edge lv now self = (self, False)"
  by (simp add: dht_handle_data_line_edge_def DHT_EDGES_NUMBER_def)

lemma handle_edge_notified:
  "snd (dht_handle_data_line_edge lv now self) \<longleftrightarrow> current_edge self = 83"
  by (auto simp add: dht_handle_data_line_edge_def DHT_EDGES_NUMBER_def Let_def)

lemma handle_edges_le:
  "current_edge self \<le> 84 \<Longrightarrow> current_edge (handle_edges evs self) \<le> 84"
proof (induction evs arbitrary: self)
  case Nil
  then show ?case by simp
next
  case (Cons ev evs)
  obtain lv now where ev: "ev = (lv, now)" by (cases ev)
  show ?case unfolding ev handle_edges.simps
    by (rule Cons.IH) (rule handle_edge_le [OF Cons.prems])
qed

lemma wait_for_ack_le:
  "dht_wait_for_ack start_time ps self = Some (st, self') \<Longrightarrow> current_edge self \<le> 84 \<Longrightarrow>
   current_edge self' \<le> 84"
proof (induction ps arbitrary: self)
  case Nil
  then show ?case by (simp split: if_splits)
next
  case (Cons p ps)
  show ?case
  proof (cases "current_edge self = 0")
    case False
    with Cons.prems show ?thesis by simp
  next
    case True
    let ?s = "handle_edges (poll_irqs p) self"
    have le: "current_edge ?s \<le> 84" using Cons.prems(2) by (rule handle_edges_le)
    show ?thesis
    proof (cases "poll_clock p - start_time > DHT_ACK_TIMEOUT_US")
      case True
      with \<open>current_edge self = 0\<close> Cons.prems(1) le show ?thesis by (simp add: Let_def)
    next
      case False
      with \<open>current_edge self = 0\<close> Cons.prems(1)
      have "dht_wait_for_ack start_time ps ?s = Some (st, self')" by (simp add: Let_def)
      then show ?thesis using le by (rule Cons.IH)
    qed
  qed
qed

lemma start_read_le:
  assumes "dht_start_read env self = Some (st, self')"
  shows "current_edge self' \<le> 84"
proof -
  let ?s = "handle_edges (ack_irqs env)
              ((handle_edges (start_signal_irqs env) (dht_abort_read self))\<lparr>current_edge := 0\<rparr>)"
  have le: "current_edge ?s \<le> 84" by (rule handle_edges_le) simp
  from assms obtain st0 s0 where w: "dht_wait_for_ack (ack_start_time env) (ack_polls env) ?s = Some (st0, s0)"
    and r: "(st, self') = (if st0 = DHT_ERR_TIMEOUT then (DHT_ERR_TIMEOUT, dht_abort_read s0) else (DHT_OK, s0))"
    by (auto simp: dht_start_read_def Let_def split: option.splits if_splits)
  have "current_edge s0 \<le> 84" using w le by (rule wait_for_ack_le)
  then show ?thesis using r by (auto simp: dht_abort_read_def split: if_splits)
qed

lemma decode_loop_no_fault:
  assumes "b + 16 < 84"
  shows "k \<le> 8 \<Longrightarrow> n = 8 - k \<Longrightarrow> \<exists>r. dht_decode_byte_loop es (int b) (2 * k) (7 - int k) acc = Inr r"
proof (induction n arbitrary: k acc)
  case 0
  then have "k = 8" by simp
  then show ?case by (simp add: decode_done)
next
  case (Suc n)
  then have k: "k < 8" and n: "n = 8 - Suc k" and le: "Suc k \<le> 8" by simp_all
  from Suc.IH [OF le n] show ?case
    by (simp only: decode_step [OF k assms]) (simp del: of_nat_Suc)
qed

lemma decode_no_fault:
  "b + 16 < 84 \<Longrightarrow> \<exists>r. dht_decode_byte es (int b) = Inr r"
  using decode_loop_no_fault [of b 0 8 es 0]
  by (simp add: dht_decode_byte_def DHT_MOST_SIGNIFICANT_BIT_OFFSET_def)

lemma get_data_no_fault:
  assumes "current_edge self = 84"
  shows "\<exists>r. dht_get_data now self data = Inr r"
proof -
  obtain s1 b1 where d1: "dht_decode_byte (edges self) 2 = Inr (s1, b1)"
    using decode_no_fault [of 2 "edges self"] by auto
  obtain s2 b2 where d2: "dht_decode_byte (edges self) 34 = Inr (s2, b2)"
    using decode_no_fault [of 34 "edges self"] by auto
  obtain s3 b3 where d3: "dht_decode_byte (edges self) 66 = Inr (s3, b3)"
    using decode_no_fault [of 66 "edges self"] by auto
  show ?thesis
    by (simp add: dht_get_data_def check_status_ready [OF assms] d1 d2 d3 Let_def
        DHT_INTEGRAL_RH_EDGES_INDEX_def DHT_INTEGRAL_T_EDGES_INDEX_def DHT_CHECKSUM_EDGES_INDEX_def)
qed

lemma dht_call_le:
  assumes "dht_call c self = Some self'" "current_edge self \<le> 84"
  shows "current_edge self' \<le> 84"
proof (cases c)
  case CallInit
  with assms show ?thesis by (auto simp: dht_init_def DHT_NO_DATA_AVAILABLE_def)
next
  case (CallStartRead env)
  with assms obtain st where "dht_start_read env self = Some (st, self')" by auto
  then show ?thesis by (rule start_read_le)
next
  case CallAbortRead
  with assms show ?thesis by (auto simp: dht_abort_read_def)
next
  case (CallHandleEdge lv now)
  with assms show ?thesis using handle_edge_le [of self lv now] by auto
next
  case (CallCheckStatus now)
  with assms show ?thesis by (auto split: sum.splits)
next
  case (CallGetData now data)
  with assms show ?thesis by (auto split: sum.splits)
qed

lemma dht_call_frozen:
  assumes "current_edge self = 84" "\<not> resets_cursor c"
  shows "dht_call c self = Some self"
proof (cases c)
  case (CallHandleEdge lv now)
  then show ?thesis using assms handle_edge_full [of self lv now] by simp
next
  case (CallCheckStatus now)
  then show ?thesis using check_status_ready [OF assms(1)] by simp
next
  case (CallGetData now data)
  then show ?thesis using get_data_no_fault [OF assms(1), of now data] by auto
qed (use assms in simp_all)

lemma reachable_le: "reachable self \<Longrightarrow> current_edge self \<le> 84"
proof (induction rule: reachable.induct)
  case (reachable_init self)
  show ?case by (simp add: dht_init_def DHT_NO_DATA_AVAILABLE_def)
next
  case (reachable_call self c self')
  then show ?case using dht_call_le by blast
qed

lemma run_edges_full:
  "84 \<le> current_edge self \<Longrightarrow> run_edges evs self = (self, 0)"
proof (induction evs)
  case Nil
  show ?case by simp
next
  case (Cons ev evs)
  obtain lv now where ev: "ev = (lv, now)" by (cases ev)
  show ?case using Cons by (simp add: ev handle_edge_full)
qed

lemma run_edges_once:
  "current_edge self < 84 \<Longrightarrow>
   snd (run_edges evs self) = (if current_edge (fst (run_edges evs self)) = 84 then 1 else 0)"
proof (induction evs arbitrary: self)
  case Nil
  then show ?case by simp
next
  case (Cons ev evs)
  obtain lv now where ev: "ev = (lv, now)" by (cases ev)
  obtain s' nt where h: "dht_handle_data_line_edge lv now self = (s', nt)"
    by (cases "dht_handle_data_line_edge lv now self")
  have nt: "nt \<longleftrightarrow> current_edge self = 83"
    using handle_edge_notified [of lv now self] h by simp
  have ce: "current_edge s' = (if (current_edge self = 0 \<and> lv = DHT_DATA_LOW) \<or>
         (0 < current_edge self \<and> current_edge self < 84)
      then current_edge self + 1 else current_edge self)"
    using handle_edge_cursor [of lv now self] h by simp
  show ?case
  proof (cases nt)
    case True
    then have "current_edge s' = 84" using nt ce by simp
    then have "run_edges evs s' = (s', 0)" by (simp add: run_edges_full)
    then show ?thesis using True \<open>current_edge s' = 84\<close> by (simp add: ev h)
  next
    case False
    then have "current_edge s' < 84" using nt ce Cons.prems by (auto split: if_splits)
    then have "snd (run_edges evs s') = (if current_edge (fst (run_edges evs s')) = 84 then 1 else 0)"
      by (rule Cons.IH)
    then show ?thesis using False by (simp add: ev h split_beta)
  qed
qed

subsection \<open>Starting a read\<close>

lemma handle_edges_nonneg:
  "0 \<le> current_edge self \<Longrightarrow> 0 \<le> current_edge (handle_edges evs self)"
proof (induction evs arbitrary: self)
  case Nil
  then show ?case by simp
next
  case (Cons ev evs)
  obtain lv now where ev: "ev = (lv, now)" by (cases ev)
  have "0 \<le> current_edge (fst (dht_handle_data_line_edge lv now self))"
    using Cons.prems by (simp add: handle_edge_cursor)
  then show ?case unfolding ev handle_edges.simps by (rule Cons.IH)
qed

lemma wait_for_ack_returns:
  assumes "\<exists>p\<in>set ps. poll_clock p - start_time > DHT_ACK_TIMEOUT_US"
  shows "\<exists>r. dht_wait_for_ack start_time ps self = Some r"
  using assms
proof (induction ps arbitrary: self)
  case Nil
  then show ?case by simp
next
  case (Cons p ps)
  show ?case
  proof (cases "poll_clock p - start_time > DHT_ACK_TIMEOUT_US")
    case True
    then show ?thesis by (simp add: Let_def)
  next
    case False
    with Cons.prems have "\<exists>q\<in>set ps. poll_clock q - start_time > DHT_ACK_TIMEOUT_US" by auto
    from Cons.IH [OF this] False show ?thesis by (simp add: Let_def)
  qed
qed

lemma wait_for_ack_outcome:
  assumes "dht_wait_for_ack start_time ps self = Some (st, self')" "0 \<le> current_edge self"
  shows "(st = DHT_ERR_TIMEOUT \<and> 0 \<le> current_edge self') \<or> (st = DHT_OK \<and> 0 < current_edge self')"
  using assms
proof (induction ps arbitrary: self)
  case Nil
  then show ?case by (auto split: if_splits)
next
  case (Cons p ps)
  show ?case
  proof (cases "current_edge self = 0")
    case False
    with Cons.prems show ?thesis by auto
  next
    case True
    let ?s = "handle_edges (poll_irqs p) self"
    have nn: "0 \<le> current_edge ?s" using Cons.prems(2) by (rule handle_edges_nonneg)
    show ?thesis
    proof (cases "poll_clock p - start_time > DHT_ACK_TIMEOUT_US")
      case True
      with \<open>current_edge self = 0\<close> Cons.prems(1) nn show ?thesis by (auto simp: Let_def)
    next
      case False
      with \<open>current_edge self = 0\<close> Cons.prems(1)
      have "dht_wait_for_ack start_time ps ?s = Some (st, self')" by (simp add: Let_def)
      then show ?thesis using nn by (rule Cons.IH)
    qed
  qed
qed

lemma wait_for_ack_silent:
  assumes "\<forall>p\<in>set ps. poll_irqs p = []" "current_edge self = 0"
    and "dht_wait_for_ack start_time ps self = Some (st, self')"
  shows "st = DHT_ERR_TIMEOUT \<and> self' = self"
  using assms
proof (induction ps)
  case Nil
  then show ?case by simp
next
  case (Cons p ps)
  then show ?case by (auto simp: Let_def split: if_splits)
qed

text \<open>
  \<^verbatim>\<open>dht_start_read\<close> returns as soon as the clock has passed the acknowledge timeout;
  it returns \<^verbatim>\<open>DHT_ERR_TIMEOUT\<close> with the cursor at 1, or \<^verbatim>\<open>DHT_OK\<close> with at least
  one edge recorded.
\<close>

lemma start_read_returns:
  assumes "\<exists>p\<in>set (ack_polls env). poll_clock p - ack_start_time env > DHT_ACK_TIMEOUT_US"
  shows "\<exists>st self'. dht_start_read env self = Some (st, self')"
proof -
  let ?s = "handle_edges (ack_irqs env)
              ((handle_edges (start_signal_irqs env) (dht_abort_read self))\<lparr>current_edge := 0\<rparr>)"
  obtain st0 s0 where "dht_wait_for_ack (ack_start_time env) (ack_polls env) ?s = Some (st0, s0)"
    using wait_for_ack_returns [OF assms, of ?s] by auto
  then show ?thesis by (simp add: dht_start_read_def Let_def)
qed

lemma start_read_outcome:
  assumes "dht_start_read env self = Some (st, self')"
  shows "(st = DHT_ERR_TIMEOUT \<and> current_edge self' = 1) \<or>
         (st = DHT_OK \<and> 0 < current_edge self' \<and> current_edge self' \<le> 84)"
proof -
  let ?s = "handle_edges (ack_irqs env)
              ((handle_edges (start_signal_irqs env) (dht_abort_read self))\<lparr>current_edge := 0\<rparr>)"
  have nn: "0 \<le> current_edge ?s" by (rule handle_edges_nonneg) simp
  from assms obtain st0 s0
    where w: "dht_wait_for_ack (ack_start_time env) (ack_polls env) ?s = Some (st0, s0)"
      and r: "(st, self') =
              (if st0 = DHT_ERR_TIMEOUT then (DHT_ERR_TIMEOUT, dht_abort_read s0) else (DHT_OK, s0))"
    by (auto simp: dht_start_read_def Let_def split: option.splits if_splits)
  from wait_for_ack_outcome [OF w nn] r start_read_le [OF assms]
  show ?thesis by (auto simp: dht_abort_read_def split: if_splits)
qed

lemma start_read_no_acknowledge:
  assumes "ack_irqs env = []" "\<forall>p\<in>set (ack_polls env). poll_irqs p = []"
    and "\<exists>p\<in>set (ack_polls env). poll_clock p - ack_start_time env > DHT_ACK_TIMEOUT_US"
  shows "\<exists>self'. dht_start_read env self = Some (DHT_ERR_TIMEOUT, self') \<and> current_edge self' = 1"
proof -
  let ?s = "(handle_edges (start_signal_irqs env) (dht_abort_read self))\<lparr>current_edge := 0\<rparr>"
  obtain st0 s0 where w: "dht_wait_for_ack (ack_start_time env) (ack_polls env) ?s = Some (st0, s0)"
    using wait_for_ack_returns [OF assms(3), of ?s] by auto
  have "st0 = DHT_ERR_TIMEOUT \<and> s0 = ?s"
    by (rule wait_for_ack_silent [OF assms(2) _ w]) simp
  then show ?thesis using w assms(1)
    by (simp add: dht_start_read_def Let_def dht_abort_read_def)
qed

subsection \<open>The edge handler and the capacity\<close>

text \<open>
  C4. The edge handler records the sample (the level read from the line and the clock
  value) and advances the cursor when the cursor is 0 and the level is low, or when the
  cursor is between 1 and 83; it discards the sample when the cursor is 0 and the level
  is not low, when the cursor is the no-data marker, and when the cursor is 84 or more.
  It calls the sequence-completed notification exactly on the call that takes the cursor
  to 84, and over any run of transitions of one attempt (started with the cursor between
  0 and 83) the notification is sent once if the cursor reaches 84 and not at all
  otherwise.
\<close>

theorem dht_handle_data_line_edge_contract:
  "((current_edge self = 0 \<and> lv = DHT_DATA_LOW) \<or>
    (0 < current_edge self \<and> current_edge self < DHT_EDGES_NUMBER) \<longrightarrow>
      fst (dht_handle_data_line_edge lv now self) =
        self\<lparr>edges := (edges self)(nat (current_edge self) := \<lparr>timestamp = now, level = lv\<rparr>),
             current_edge := current_edge self + 1\<rparr>) \<and>
   (current_edge self = 0 \<and> lv \<noteq> DHT_DATA_LOW \<longrightarrow>
      dht_handle_data_line_edge lv now self = (self, False)) \<and>
   (current_edge self = DHT_NO_DATA_AVAILABLE \<or> DHT_EDGES_NUMBER \<le> current_edge self \<longrightarrow>
      dht_handle_data_line_edge lv now self = (self, False)) \<and>
   (snd (dht_handle_data_line_edge lv now self) \<longleftrightarrow>
      current_edge self \<noteq> DHT_EDGES_NUMBER \<and>
      current_edge (fst (dht_handle_data_line_edge lv now self)) = DHT_EDGES_NUMBER) \<and>
   (0 \<le> current_edge self \<and> current_edge self < DHT_EDGES_NUMBER \<longrightarrow>
      snd (run_edges evs self) =
        (if current_edge (fst (run_edges evs self)) = DHT_EDGES_NUMBER then 1 else 0))"
proof (intro conjI impI)
  assume "(current_edge self = 0 \<and> lv = DHT_DATA_LOW) \<or>
          (0 < current_edge self \<and> current_edge self < DHT_EDGES_NUMBER)"
  then show "fst (dht_handle_data_line_edge lv now self) =
        self\<lparr>edges := (edges self)(nat (current_edge self) := \<lparr>timestamp = now, level = lv\<rparr>),
             current_edge := current_edge self + 1\<rparr>"
    by (simp add: dht_handle_data_line_edge_def Let_def)
next
  assume "current_edge self = 0 \<and> lv \<noteq> DHT_DATA_LOW"
  then show "dht_handle_data_line_edge lv now self = (self, False)"
    by (simp add: dht_handle_data_line_edge_def)
next
  assume "current_edge self = DHT_NO_DATA_AVAILABLE \<or> DHT_EDGES_NUMBER \<le> current_edge self"
  then show "dht_handle_data_line_edge lv now self = (self, False)"
    by (auto simp: dht_handle_data_line_edge_def DHT_NO_DATA_AVAILABLE_def DHT_EDGES_NUMBER_def)
next
  show "snd (dht_handle_data_line_edge lv now self) \<longleftrightarrow>
      current_edge self \<noteq> DHT_EDGES_NUMBER \<and>
      current_edge (fst (dht_handle_data_line_edge lv now self)) = DHT_EDGES_NUMBER"
    unfolding handle_edge_notified handle_edge_cursor
    by (auto simp: DHT_EDGES_NUMBER_def)
next
  assume "0 \<le> current_edge self \<and> current_edge self < DHT_EDGES_NUMBER"
  then show "snd (run_edges evs self) =
        (if current_edge (fst (run_edges evs self)) = DHT_EDGES_NUMBER then 1 else 0)"
    using run_edges_once [of self evs] by (simp add: DHT_EDGES_NUMBER_def)
qed

text \<open>
  The contract on an armed device, a fresh device, a full timeline, a timeline one edge
  short, and a whole frame followed by two more transitions.
\<close>

theorem dht_handle_data_line_edge_contract_witness:
  "fst (dht_handle_data_line_edge DHT_DATA_LOW 1000 blank_device) =
     blank_device\<lparr>edges := (edges blank_device)(0 := \<lparr>timestamp = 1000, level = DHT_DATA_LOW\<rparr>),
                  current_edge := 1\<rparr> \<and>
   dht_handle_data_line_edge DHT_DATA_HIGH 1000 blank_device = (blank_device, False) \<and>
   dht_handle_data_line_edge DHT_DATA_LOW 1000 (dht_init blank_device) =
     (dht_init blank_device, False) \<and>
   dht_handle_data_line_edge DHT_DATA_LOW 9000 (sensor_frame 1000 [44, 0, 25, 0, 69]) =
     (sensor_frame 1000 [44, 0, 25, 0, 69], False) \<and>
   snd (dht_handle_data_line_edge DHT_DATA_HIGH 5000 (blank_device\<lparr>current_edge := 83\<rparr>)) \<and>
   snd (run_edges
          (edge_events (frame_edges 1000 (byte_widths [44, 0, 25, 0, 69])) @
           [(DHT_DATA_LOW, 9000), (DHT_DATA_HIGH, 9050)])
          blank_device) = 1"
proof -
  let ?evs = "edge_events (frame_edges 1000 (byte_widths [44, 0, 25, 0, 69])) @
              [(DHT_DATA_LOW, 9000), (DHT_DATA_HIGH, 9050)]"
  have full: "current_edge (fst (run_edges ?evs blank_device)) = DHT_EDGES_NUMBER"
    by code_simp
  have ce84: "current_edge (sensor_frame 1000 [44, 0, 25, 0, 69]) = 84"
    by code_simp
  have c1: "fst (dht_handle_data_line_edge DHT_DATA_LOW 1000 blank_device) =
     blank_device\<lparr>edges := (edges blank_device)(0 := \<lparr>timestamp = 1000, level = DHT_DATA_LOW\<rparr>),
                  current_edge := 1\<rparr>"
    using dht_handle_data_line_edge_contract [of blank_device DHT_DATA_LOW 1000 "[]"]
    by (simp add: blank_device_def)
  have c2: "dht_handle_data_line_edge DHT_DATA_HIGH 1000 blank_device = (blank_device, False)"
    using dht_handle_data_line_edge_contract [of blank_device DHT_DATA_HIGH 1000 "[]"]
    by (simp add: blank_device_def)
  have c3: "dht_handle_data_line_edge DHT_DATA_LOW 1000 (dht_init blank_device) =
     (dht_init blank_device, False)"
    using dht_handle_data_line_edge_contract [of "dht_init blank_device" DHT_DATA_LOW 1000 "[]"]
    by (simp add: dht_init_def)
  have c4: "dht_handle_data_line_edge DHT_DATA_LOW 9000 (sensor_frame 1000 [44, 0, 25, 0, 69]) =
     (sensor_frame 1000 [44, 0, 25, 0, 69], False)"
    using dht_handle_data_line_edge_contract
      [of "sensor_frame 1000 [44, 0, 25, 0, 69]" DHT_DATA_LOW 9000 "[]"] ce84
    by (simp add: DHT_EDGES_NUMBER_def)
  have c5: "snd (dht_handle_data_line_edge DHT_DATA_HIGH 5000 (blank_device\<lparr>current_edge := 83\<rparr>))"
    using dht_handle_data_line_edge_contract
      [of "blank_device\<lparr>current_edge := 83\<rparr>" DHT_DATA_HIGH 5000 "[]"]
    by (simp add: DHT_EDGES_NUMBER_def)
  have c6: "snd (run_edges ?evs blank_device) = 1"
    using dht_handle_data_line_edge_contract [of blank_device DHT_DATA_LOW 0 ?evs] full
    by (simp add: blank_device_def DHT_EDGES_NUMBER_def)
  show ?thesis using c1 c2 c3 c4 c5 c6 by simp
qed

text \<open>
  C5. The cursor never exceeds the capacity 84: \<^verbatim>\<open>dht_init\<close> establishes the bound,
  every call of the public interface preserves it, and so it holds in every reachable
  state. Once the cursor is 84, every call other than \<^verbatim>\<open>dht_init\<close>,
  \<^verbatim>\<open>dht_start_read\<close> and \<^verbatim>\<open>dht_abort_read\<close> leaves the whole device, cursor and
  edges, as it is, and the edge handler sends no further notification.
\<close>

theorem cursor_capacity_invariant:
  "current_edge (dht_init self) \<le> DHT_EDGES_NUMBER \<and>
   (current_edge self \<le> DHT_EDGES_NUMBER \<and> dht_call c self = Some self' \<longrightarrow>
      current_edge self' \<le> DHT_EDGES_NUMBER) \<and>
   (current_edge self = DHT_EDGES_NUMBER \<and> \<not> resets_cursor c \<longrightarrow> dht_call c self = Some self) \<and>
   (current_edge self = DHT_EDGES_NUMBER \<longrightarrow>
      dht_handle_data_line_edge lv now self = (self, False)) \<and>
   (reachable self \<longrightarrow> current_edge self \<le> DHT_EDGES_NUMBER)"
proof (intro conjI impI)
  show "current_edge (dht_init self) \<le> DHT_EDGES_NUMBER"
    by (simp add: dht_init_def DHT_NO_DATA_AVAILABLE_def DHT_EDGES_NUMBER_def)
next
  assume "current_edge self \<le> DHT_EDGES_NUMBER \<and> dht_call c self = Some self'"
  then show "current_edge self' \<le> DHT_EDGES_NUMBER"
    using dht_call_le [of c self self'] by (simp add: DHT_EDGES_NUMBER_def)
next
  assume "current_edge self = DHT_EDGES_NUMBER \<and> \<not> resets_cursor c"
  then show "dht_call c self = Some self"
    using dht_call_frozen [of self c] by (simp add: DHT_EDGES_NUMBER_def)
next
  assume "current_edge self = DHT_EDGES_NUMBER"
  then show "dht_handle_data_line_edge lv now self = (self, False)"
    using handle_edge_full [of self lv now] by (simp add: DHT_EDGES_NUMBER_def)
next
  assume "reachable self"
  then show "current_edge self \<le> DHT_EDGES_NUMBER"
    using reachable_le [of self] by (simp add: DHT_EDGES_NUMBER_def)
qed

text \<open>
  The invariant on a timeline one edge short that receives its last edge, on a full
  timeline under the three calls that do not reset it, and after an abort.
\<close>

theorem cursor_capacity_invariant_witness:
  "current_edge (fst (dht_handle_data_line_edge DHT_DATA_HIGH 5000
                        (blank_device\<lparr>current_edge := 83\<rparr>))) \<le> DHT_EDGES_NUMBER \<and>
   dht_call (CallHandleEdge DHT_DATA_LOW 9000) (sensor_frame 1000 [44, 0, 25, 0, 69]) =
     Some (sensor_frame 1000 [44, 0, 25, 0, 69]) \<and>
   dht_call (CallCheckStatus 9000) (sensor_frame 1000 [44, 0, 25, 0, 69]) =
     Some (sensor_frame 1000 [44, 0, 25, 0, 69]) \<and>
   dht_call (CallGetData 9000 blank_data) (sensor_frame 1000 [44, 0, 25, 0, 69]) =
     Some (sensor_frame 1000 [44, 0, 25, 0, 69]) \<and>
   dht_handle_data_line_edge DHT_DATA_LOW 9000 (sensor_frame 1000 [44, 0, 25, 0, 69]) =
     (sensor_frame 1000 [44, 0, 25, 0, 69], False) \<and>
   current_edge (dht_abort_read (dht_init blank_device)) \<le> DHT_EDGES_NUMBER"
proof -
  let ?S = "sensor_frame 1000 [44, 0, 25, 0, 69]"
  let ?P = "blank_device\<lparr>current_edge := 83\<rparr>"
  have ce: "current_edge ?S = DHT_EDGES_NUMBER" by code_simp
  have p: "current_edge ?P \<le> DHT_EDGES_NUMBER" by (simp add: DHT_EDGES_NUMBER_def)
  have call: "dht_call (CallHandleEdge DHT_DATA_HIGH 5000) ?P =
              Some (fst (dht_handle_data_line_edge DHT_DATA_HIGH 5000 ?P))" by simp
  have r: "reachable (dht_abort_read (dht_init blank_device))"
    by (rule reachable_call [where c = CallAbortRead, OF reachable_init]) simp
  have c1: "current_edge (fst (dht_handle_data_line_edge DHT_DATA_HIGH 5000 ?P)) \<le> DHT_EDGES_NUMBER"
    using cursor_capacity_invariant [where self = ?P and c = "CallHandleEdge DHT_DATA_HIGH 5000"
        and self' = "fst (dht_handle_data_line_edge DHT_DATA_HIGH 5000 ?P)"] p call by blast
  have c2: "dht_call (CallHandleEdge DHT_DATA_LOW 9000) ?S = Some ?S"
    using cursor_capacity_invariant [where self = ?S and c = "CallHandleEdge DHT_DATA_LOW 9000"] ce by simp
  have c3: "dht_call (CallCheckStatus 9000) ?S = Some ?S"
    using cursor_capacity_invariant [where self = ?S and c = "CallCheckStatus 9000"] ce by simp
  have c4: "dht_call (CallGetData 9000 blank_data) ?S = Some ?S"
    using cursor_capacity_invariant [where self = ?S and c = "CallGetData 9000 blank_data"] ce by simp
  have c5: "dht_handle_data_line_edge DHT_DATA_LOW 9000 ?S = (?S, False)"
    using cursor_capacity_invariant [where self = ?S and lv = DHT_DATA_LOW and now = 9000] ce by blast
  have c6: "current_edge (dht_abort_read (dht_init blank_device)) \<le> DHT_EDGES_NUMBER"
    using cursor_capacity_invariant [where self = "dht_abort_read (dht_init blank_device)"] r by blast
  show ?thesis using c1 c2 c3 c4 c5 c6 by simp
qed

text \<open>
  C10. \<^verbatim>\<open>dht_get_edges_count\<close> returns the cursor when it is positive and 0 otherwise,
  in particular 0 when the cursor is the no-data marker \<open>-1\<close>; in every reachable state
  the result, read as an unsigned number, is the cursor clipped at 0 and lies between 0
  and 84.
\<close>

theorem dht_get_edges_count_range:
  "(0 < current_edge self \<longrightarrow> dht_get_edges_count self = word_of_int (current_edge self)) \<and>
   (current_edge self \<le> 0 \<longrightarrow> dht_get_edges_count self = 0) \<and>
   dht_get_edges_count (self\<lparr>current_edge := DHT_NO_DATA_AVAILABLE\<rparr>) = 0 \<and>
   (reachable self \<longrightarrow>
      uint (dht_get_edges_count self) = max 0 (current_edge self) \<and>
      uint (dht_get_edges_count self) \<le> DHT_EDGES_NUMBER)"
proof (intro conjI impI)
  show "dht_get_edges_count (self\<lparr>current_edge := DHT_NO_DATA_AVAILABLE\<rparr>) = 0"
    by (simp add: dht_get_edges_count_def DHT_NO_DATA_AVAILABLE_def)
next
  assume r: "reachable self"
  then have le: "current_edge self \<le> 84" by (rule reachable_le)
  show u: "uint (dht_get_edges_count self) = max 0 (current_edge self)"
  proof (cases "0 < current_edge self")
    case True
    then have "uint (word_of_int (current_edge self) :: 32 word) = current_edge self"
      using le by (simp add: uint_word_of_int take_bit_int_eq_self)
    then show ?thesis using True by (simp add: dht_get_edges_count_def)
  next
    case False
    then show ?thesis by (simp add: dht_get_edges_count_def)
  qed
  show "uint (dht_get_edges_count self) \<le> DHT_EDGES_NUMBER"
    unfolding u using le by (simp add: DHT_EDGES_NUMBER_def)
qed (simp_all add: dht_get_edges_count_def)

text \<open>The count of a fresh device, of a full timeline and of an aborted device.\<close>

theorem dht_get_edges_count_range_witness:
  "dht_get_edges_count (dht_init blank_device) = 0 \<and>
   dht_get_edges_count (sensor_frame 1000 [44, 0, 25, 0, 69]) = 84 \<and>
   uint (dht_get_edges_count (dht_abort_read (dht_init blank_device))) = 1 \<and>
   uint (dht_get_edges_count (dht_abort_read (dht_init blank_device))) \<le> DHT_EDGES_NUMBER"
proof -
  let ?S = "sensor_frame 1000 [44, 0, 25, 0, 69]"
  let ?A = "dht_abort_read (dht_init blank_device)"
  have ce: "current_edge ?S = 84" by code_simp
  have r: "reachable ?A"
    by (rule reachable_call [where c = CallAbortRead, OF reachable_init]) simp
  have a: "current_edge ?A = 1" by (simp add: dht_abort_read_def)
  have c1: "dht_get_edges_count (dht_init blank_device) = 0"
    using dht_get_edges_count_range [of "dht_init blank_device"]
    by (simp add: dht_init_def DHT_NO_DATA_AVAILABLE_def)
  have c2: "dht_get_edges_count ?S = 84"
    using dht_get_edges_count_range [of ?S] ce by simp
  have c3: "uint (dht_get_edges_count ?A) = 1 \<and> uint (dht_get_edges_count ?A) \<le> DHT_EDGES_NUMBER"
    using dht_get_edges_count_range [of ?A] r a by simp
  show ?thesis using c1 c2 c3 by simp
qed

end
